theory Spec2Isabelle
  imports Complex_Main
begin

section \<open>Python values and exceptions\<close>

text \<open>
  The three modules handle values that come out of \<^verbatim>\<open>json.load\<close> and
  \<^verbatim>\<open>response.json()\<close>, so a Python value is a JSON document. A dictionary is an
  association list in insertion order with distinct keys (what the JSON decoder builds).
  Floats are reals; NaN and the infinities are not represented.
\<close>

datatype json =
    JNull
  | JBool bool
  | JInt int
  | JFloat real
  | JStr string
  | JArr "json list"
  | JObj "(string \<times> json) list"

text \<open>
  The exception classes the code raises, catches or lets through. All of them derive
  from \<^verbatim>\<open>Exception\<close>. \<open>JSONDecodeError\<close> is a subclass of \<open>ValueError\<close>.
  \<open>HTTPError\<close> is constructed by \<^verbatim>\<open>raise_for_status\<close> only, which attaches
  the response: it carries the status code.
\<close>

datatype exn =
    TypeError
  | KeyError
  | AttributeError
  | ValueError string
  | JSONDecodeError
  | OSError
  | ImportError string
  | Timeout
  | ConnectionError
  | HTTPError int
  | RequestException
  | OtherException string

fun is_ValueError :: "exn \<Rightarrow> bool" where
  "is_ValueError (ValueError _) = True"
| "is_ValueError JSONDecodeError = True"
| "is_ValueError _ = False"

text \<open>Truth value testing (\<^verbatim>\<open>if x:\<close>, \<^verbatim>\<open>x or y\<close>).\<close>

fun py_truthy :: "json \<Rightarrow> bool" where
  "py_truthy JNull = False"
| "py_truthy (JBool b) = b"
| "py_truthy (JInt i) = (i \<noteq> 0)"
| "py_truthy (JFloat r) = (r \<noteq> 0)"
| "py_truthy (JStr s) = (s \<noteq> [])"
| "py_truthy (JArr xs) = (xs \<noteq> [])"
| "py_truthy (JObj kvs) = (kvs \<noteq> [])"

text \<open>\<^verbatim>\<open>len(x)\<close>: defined on strings, lists and dicts, \<open>TypeError\<close> otherwise.\<close>

fun py_len :: "json \<Rightarrow> exn + nat" where
  "py_len (JStr s) = Inr (length s)"
| "py_len (JArr xs) = Inr (length xs)"
| "py_len (JObj kvs) = Inr (length kvs)"
| "py_len _ = Inl TypeError"

text \<open>
  \<^verbatim>\<open>for v in x\<close>: the elements of a list, the characters of a string, the keys of a
  dict; \<open>TypeError\<close> for a value that is not iterable.
\<close>

fun py_iter :: "json \<Rightarrow> exn + json list" where
  "py_iter (JArr xs) = Inr xs"
| "py_iter (JStr s) = Inr (map (\<lambda>c. JStr [c]) s)"
| "py_iter (JObj kvs) = Inr (map (\<lambda>kv. JStr (fst kv)) kvs)"
| "py_iter _ = Inl TypeError"

text \<open>
  \<^verbatim>\<open>xs[s:]\<close> on a sequence: a negative start counts from the end and is clamped at
  the front, a non-negative one is clamped at the back.
\<close>

definition slice_from :: "int \<Rightarrow> 'a list \<Rightarrow> 'a list" where
  "slice_from s xs =
     (let n = int (length xs);
          start = (if s < 0 then max (n + s) 0 else min s n)
      in drop (nat start) xs)"

text \<open>
  \<^verbatim>\<open>x[-k:]\<close>, the expression both trimming and limiting use. Lists and strings
  can be sliced; a dict or a scalar raises (\<open>TypeError\<close>; for a dict Python 3.12 and
  later raise \<open>KeyError\<close> instead, which no caller here tells apart).
\<close>

fun py_last :: "int \<Rightarrow> json \<Rightarrow> exn + json" where
  "py_last k (JArr xs) = Inr (JArr (slice_from (- k) xs))"
| "py_last k (JStr s) = Inr (JStr (slice_from (- k) s))"
| "py_last k _ = Inl TypeError"

text \<open>\<^verbatim>\<open>x[key]\<close> with a string key.\<close>

fun py_getitem :: "json \<Rightarrow> string \<Rightarrow> exn + json" where
  "py_getitem (JObj kvs) k = (case map_of kvs k of None \<Rightarrow> Inl KeyError | Some v \<Rightarrow> Inr v)"
| "py_getitem _ k = Inl TypeError"

fun is_substring :: "string \<Rightarrow> string \<Rightarrow> bool" where
  "is_substring k [] = (k = [])"
| "is_substring k (c # cs) = (take (length k) (c # cs) = k \<or> is_substring k cs)"

text \<open>
  \<^verbatim>\<open>key in x\<close> with a string key: a key of a dict, an element of a list, a
  substring of a string; \<open>TypeError\<close> on a scalar.
\<close>

fun py_in :: "string \<Rightarrow> json \<Rightarrow> exn + bool" where
  "py_in k (JObj kvs) = Inr (k \<in> set (map fst kvs))"
| "py_in k (JArr xs) = Inr (JStr k \<in> set xs)"
| "py_in k (JStr s) = Inr (is_substring k s)"
| "py_in k _ = Inl TypeError"

section \<open>The file system and the clock\<close>

text \<open>
  A file holds a JSON document (what \<^verbatim>\<open>json.dump\<close> wrote and
  \<^verbatim>\<open>json.load\<close> reads back) or bytes that do not parse. Opening a path can fail:
  \<open>read_denied\<close> for \<^verbatim>\<open>open(p, 'r')\<close>, \<open>write_denied\<close> for
  \<^verbatim>\<open>open(p, 'w')\<close> and for a rename onto \<open>p\<close>, \<open>mkdir_denied\<close> for creating
  the directory, \<open>stat_denied\<close> for the \<^verbatim>\<open>stat\<close> behind
  \<^verbatim>\<open>Path.exists()\<close>.
\<close>

datatype content = Text json | Garbage

record fs =
  files :: "string \<rightharpoonup> content"
  read_denied :: "string \<Rightarrow> bool"
  write_denied :: "string \<Rightarrow> bool"
  mkdir_denied :: "string \<Rightarrow> bool"
  stat_denied :: "string \<Rightarrow> bool"

text \<open>
  \<^verbatim>\<open>Path.exists()\<close>: false for a path that is not there; an \<open>OSError\<close> of the
  \<^verbatim>\<open>stat\<close> other than the not-found ones (no search permission on the directory, a
  name that is too long) is re-raised (Python 3.13 and earlier).
\<close>

definition path_exists :: "fs \<Rightarrow> string \<Rightarrow> exn + bool" where
  "path_exists d p = (if stat_denied d p then Inl OSError else Inr (files d p \<noteq> None))"

text \<open>
  One reading of the clock per call: \<open>iso\<close> is \<^verbatim>\<open>datetime.now().isoformat()\<close>,
  \<open>stamp\<close> is \<^verbatim>\<open>datetime.now().strftime('%Y%m%d_%H%M%S')\<close>.
\<close>

record clock =
  iso :: string
  stamp :: string

text \<open>
  \<^verbatim>\<open>Path(d) / name\<close>, for a relative \<open>name\<close>. Paths are the strings pathlib
  prints: no trailing slash.
\<close>

definition path_join :: "string \<Rightarrow> string \<Rightarrow> string" where
  "path_join d n = d @ ''/'' @ n"

text \<open>
  \<^verbatim>\<open>PurePath.name\<close>, \<^verbatim>\<open>PurePath.suffix\<close> and
  \<^verbatim>\<open>PurePath.with_suffix\<close>: the suffix starts at the last dot of the final
  component, unless that dot is its first or its last character; an empty name raises
  \<open>ValueError\<close>.
\<close>

definition path_name :: "string \<Rightarrow> string" where
  "path_name p = rev (takeWhile (\<lambda>c. c \<noteq> CHR ''/'') (rev p))"

definition path_suffix :: "string \<Rightarrow> string" where
  "path_suffix p =
     (let name = path_name p;
          ext = rev (takeWhile (\<lambda>c. c \<noteq> CHR ''.'') (rev name))
      in if CHR ''.'' \<in> set name \<and> ext \<noteq> [] \<and> length ext + 1 < length name
         then CHR ''.'' # ext else [])"

definition with_suffix :: "string \<Rightarrow> string \<Rightarrow> exn + string" where
  "with_suffix p s =
     (if path_name p = [] then Inl (ValueError ''empty name'')
      else Inr (take (length p - length (path_suffix p)) p @ s))"

section \<open>ConversationHistoryManager\<close>

text \<open>
  The fields of the class. \<open>history\<close> is annotated as a list of dicts, but
  \<^verbatim>\<open>import_history\<close> assigns whatever the file holds under \<open>"history"\<close>, so it
  is a Python value. The lock serialises the methods; each method is one atomic step.
\<close>

record manager =
  history_dir :: string
  agent_name :: string
  auto_save :: bool
  max_history_size :: int
  history :: json

text \<open>
  What a method leaves behind: the exception that escaped it (if any), the object and
  the file system as they are at that point.
\<close>

record result =
  raised :: "exn option"
  self :: manager
  disk :: fs

definition history_file :: "manager \<Rightarrow> string" where
  "history_file m = path_join (history_dir m) (agent_name m @ ''_history.json'')"

definition backup_file :: "clock \<Rightarrow> manager \<Rightarrow> string" where
  "backup_file c m =
     path_join (history_dir m) (agent_name m @ ''_backup_'' @ stamp c @ ''.json'')"

text \<open>
  \<^verbatim>\<open>_save_to_file\<close>: build the document (\<^verbatim>\<open>len(self.history)\<close> can raise),
  write it to the temporary file, rename the temporary file onto the target. Returns the
  exception that escaped and the file system; a failed rename leaves the temporary file.
\<close>

definition save_data :: "clock \<Rightarrow> manager \<Rightarrow> nat \<Rightarrow> json" where
  "save_data c m n =
     JObj [(''agent_name'', JStr (agent_name m)),
           (''saved_at'', JStr (iso c)),
           (''message_count'', JInt (int n)),
           (''history'', history m)]"

definition save_to_file :: "clock \<Rightarrow> manager \<Rightarrow> string \<Rightarrow> fs \<Rightarrow> exn option \<times> fs" where
  "save_to_file c m filepath d =
     (case py_len (history m) of
        Inl e \<Rightarrow> (Some e, d)
      | Inr n \<Rightarrow>
          (case with_suffix filepath ''.tmp'' of
             Inl e \<Rightarrow> (Some e, d)
           | Inr temp_file \<Rightarrow>
               if write_denied d temp_file then (Some OSError, d)
               else
                 (let d1 = d\<lparr>files := (files d)(temp_file \<mapsto> Text (save_data c m n))\<rparr>
                  in (if write_denied d filepath then (Some OSError, d1)
                      else (None,
                            d1\<lparr>files := ((files d1)(temp_file := None))
                                           (filepath \<mapsto> Text (save_data c m n))\<rparr>)))))"

text \<open>\<^verbatim>\<open>_save_history\<close>: every exception of the write is caught and logged.\<close>

definition save_history :: "clock \<Rightarrow> manager \<Rightarrow> fs \<Rightarrow> exn option \<times> fs" where
  "save_history c m d =
     (case save_to_file c m (history_file m) d of
        (Some e, d') \<Rightarrow> (None, d')
      | (None, d') \<Rightarrow> (None, d'))"

text \<open>
  The test of \<^verbatim>\<open>_load_history\<close>:
  \<^verbatim>\<open>isinstance(msg, dict) and "role" in msg and "content" in msg\<close>.
\<close>

fun valid_message :: "json \<Rightarrow> bool" where
  "valid_message (JObj kvs) = (''role'' \<in> set (map fst kvs) \<and> ''content'' \<in> set (map fst kvs))"
| "valid_message _ = False"

text \<open>\<^verbatim>\<open>data.get("history", [])\<close>: only a dict has \<open>get\<close>.\<close>

fun get_history_field :: "json \<Rightarrow> exn + json" where
  "get_history_field (JObj kvs) =
     (case map_of kvs ''history'' of None \<Rightarrow> Inr (JArr []) | Some v \<Rightarrow> Inr v)"
| "get_history_field _ = Inl AttributeError"

text \<open>\<^verbatim>\<open>open(p, 'r')\<close> followed by \<^verbatim>\<open>json.load\<close>.\<close>

definition read_json :: "fs \<Rightarrow> string \<Rightarrow> exn + json" where
  "read_json d p =
     (if read_denied d p then Inl OSError
      else case files d p of
             None \<Rightarrow> Inl OSError
           | Some Garbage \<Rightarrow> Inl JSONDecodeError
           | Some (Text j) \<Rightarrow> Inr j)"

text \<open>
  The body of the \<^verbatim>\<open>try\<close> of \<^verbatim>\<open>_load_history\<close>. The assignment
  \<^verbatim>\<open>self.history = data.get("history", [])\<close> happens before the validating
  comprehension, so an exception of the comprehension leaves the raw value in place.
\<close>

definition load_body :: "manager \<Rightarrow> fs \<Rightarrow> exn option \<times> manager" where
  "load_body m d =
     (case read_json d (history_file m) of
        Inl e \<Rightarrow> (Some e, m)
      | Inr data \<Rightarrow>
          (case get_history_field data of
             Inl e \<Rightarrow> (Some e, m)
           | Inr h \<Rightarrow>
               (let m1 = m\<lparr>history := h\<rparr>
                in (case py_iter h of
                      Inl e \<Rightarrow> (Some e, m1)
                    | Inr msgs \<Rightarrow>
                        (None, m1\<lparr>history := JArr (filter valid_message msgs)\<rparr>)))))"

text \<open>
  \<^verbatim>\<open>_load_history\<close>: the existence check stands before the \<^verbatim>\<open>try\<close>, so
  its exception leaves the method; nothing to do without a file; otherwise the body, with
  \<^verbatim>\<open>except json.JSONDecodeError\<close> and \<^verbatim>\<open>except Exception\<close> around it.
\<close>

definition load_history :: "manager \<Rightarrow> fs \<Rightarrow> exn option \<times> manager" where
  "load_history m d =
     (case path_exists d (history_file m) of
        Inl e \<Rightarrow> (Some e, m)
      | Inr there \<Rightarrow>
          (if \<not> there then (None, m)
           else (case load_body m d of
                   (Some e, m') \<Rightarrow> (None, m')
                 | (None, m') \<Rightarrow> (None, m'))))"

text \<open>
  \<^verbatim>\<open>__init__\<close>: create the directory, start from the empty list, load, and log
  \<^verbatim>\<open>len(self.history)\<close>. An exception leaves no object (\<open>Inl\<close>).
\<close>

definition init :: "string \<Rightarrow> string \<Rightarrow> bool \<Rightarrow> int \<Rightarrow> fs \<Rightarrow> exn + manager" where
  "init dir name autosave maxsize d =
     (if mkdir_denied d dir then Inl OSError
      else
        let m0 = \<lparr>history_dir = dir, agent_name = name, auto_save = autosave,
                  max_history_size = maxsize, history = JArr []\<rparr>
        in (case load_history m0 d of
              (Some e, m1) \<Rightarrow> Inl e
            | (None, m1) \<Rightarrow>
                (case py_len (history m1) of Inl e \<Rightarrow> Inl e | Inr n \<Rightarrow> Inr m1)))"

text \<open>
  The trimming step shared by \<^verbatim>\<open>add_message\<close> and \<^verbatim>\<open>import_history\<close>:
  \<^verbatim>\<open>if len(self.history) > self.max_history_size:
       self.history = self.history[-self.max_history_size:]\<close>.
\<close>

definition trim :: "manager \<Rightarrow> exn option \<times> manager" where
  "trim m =
     (case py_len (history m) of
        Inl e \<Rightarrow> (Some e, m)
      | Inr n \<Rightarrow>
          if int n > max_history_size m
          then (case py_last (max_history_size m) (history m) of
                  Inl e \<Rightarrow> (Some e, m)
                | Inr h \<Rightarrow> (None, m\<lparr>history := h\<rparr>))
          else (None, m))"

text \<open>The record \<^verbatim>\<open>add_message\<close> builds; \<^verbatim>\<open>metadata or {}\<close>.\<close>

definition make_message :: "clock \<Rightarrow> string \<Rightarrow> string \<Rightarrow> (string \<times> json) list option \<Rightarrow> json" where
  "make_message c role content metadata =
     JObj [(''role'', JStr role),
           (''content'', JStr content),
           (''timestamp'', JStr (iso c)),
           (''metadata'',
              (case metadata of
                 None \<Rightarrow> JObj []
               | Some md \<Rightarrow> if py_truthy (JObj md) then JObj md else JObj []))]"

text \<open>
  \<^verbatim>\<open>add_message\<close>: append (only a list has \<open>append\<close>), trim, save when
  \<open>auto_save\<close> is set. Nothing here is inside a \<^verbatim>\<open>try\<close> except the save.
\<close>

definition add_message ::
  "clock \<Rightarrow> string \<Rightarrow> string \<Rightarrow> (string \<times> json) list option \<Rightarrow> manager \<Rightarrow> fs \<Rightarrow> result" where
  "add_message c role content metadata m d =
     (case history m of
        JArr xs \<Rightarrow>
          (let m1 = m\<lparr>history := JArr (xs @ [make_message c role content metadata])\<rparr>
           in (case trim m1 of
                 (Some e, m2) \<Rightarrow> \<lparr>raised = Some e, self = m2, disk = d\<rparr>
               | (None, m2) \<Rightarrow>
                   (if auto_save m2
                    then (case save_history c m2 d of
                            (r, d') \<Rightarrow> \<lparr>raised = r, self = m2, disk = d'\<rparr>)
                    else \<lparr>raised = None, self = m2, disk = d\<rparr>)))
      | _ \<Rightarrow> \<lparr>raised = Some AttributeError, self = m, disk = d\<rparr>)"

text \<open>\<^verbatim>\<open>self.history.copy()\<close>: lists and dicts have \<open>copy\<close>.\<close>

fun py_copy :: "json \<Rightarrow> exn + json" where
  "py_copy (JArr xs) = Inr (JArr xs)"
| "py_copy (JObj kvs) = Inr (JObj kvs)"
| "py_copy _ = Inl AttributeError"

text \<open>
  The comprehension \<^verbatim>\<open>[msg for msg in history if P(msg["role"])]\<close>: the
  subscript raises on a message without the key or on a value that is not a dict, and
  the first such message ends the comprehension.
\<close>

fun filter_role :: "(json \<Rightarrow> bool) \<Rightarrow> json list \<Rightarrow> exn + json list" where
  "filter_role P [] = Inr []"
| "filter_role P (msg # rest) =
     (case py_getitem msg ''role'' of
        Inl e \<Rightarrow> Inl e
      | Inr v \<Rightarrow>
          (case filter_role P rest of
             Inl e \<Rightarrow> Inl e
           | Inr kept \<Rightarrow> Inr (if P v then msg # kept else kept)))"

definition filter_history :: "(json \<Rightarrow> bool) \<Rightarrow> json \<Rightarrow> exn + json" where
  "filter_history P h =
     (case py_iter h of
        Inl e \<Rightarrow> Inl e
      | Inr msgs \<Rightarrow>
          (case filter_role P msgs of Inl e \<Rightarrow> Inl e | Inr kept \<Rightarrow> Inr (JArr kept)))"

text \<open>\<^verbatim>\<open>if limit: history = history[-limit:]\<close>; \<open>None\<close> and \<open>0\<close> are falsy.\<close>

definition apply_limit :: "int option \<Rightarrow> json \<Rightarrow> exn + json" where
  "apply_limit limit h =
     (case limit of
        None \<Rightarrow> Inr h
      | Some n \<Rightarrow> if n \<noteq> 0 then py_last n h else Inr h)"

text \<open>\<^verbatim>\<open>get_history\<close>; \<^verbatim>\<open>if role_filter:\<close> is false for \<open>None\<close> and for \<open>""\<close>.\<close>

definition get_history :: "int option \<Rightarrow> string option \<Rightarrow> manager \<Rightarrow> exn + json" where
  "get_history limit role_filter m =
     (case py_copy (history m) of
        Inl e \<Rightarrow> Inl e
      | Inr h0 \<Rightarrow>
          (case (case role_filter of
                   None \<Rightarrow> Inr h0
                 | Some r \<Rightarrow> if r \<noteq> [] then filter_history (\<lambda>v. v = JStr r) h0 else Inr h0) of
             Inl e \<Rightarrow> Inl e
           | Inr h1 \<Rightarrow> apply_limit limit h1))"

text \<open>
  The formatting comprehension of \<^verbatim>\<open>get_formatted_history\<close>:
  \<^verbatim>\<open>{"role": msg["role"], "content": msg["content"]}\<close> for each message.
\<close>

fun format_messages :: "json list \<Rightarrow> exn + json list" where
  "format_messages [] = Inr []"
| "format_messages (msg # rest) =
     (case py_getitem msg ''role'' of
        Inl e \<Rightarrow> Inl e
      | Inr r \<Rightarrow>
          (case py_getitem msg ''content'' of
             Inl e \<Rightarrow> Inl e
           | Inr c \<Rightarrow>
               (case format_messages rest of
                  Inl e \<Rightarrow> Inl e
                | Inr out \<Rightarrow> Inr (JObj [(''role'', r), (''content'', c)] # out))))"

definition get_formatted_history :: "int option \<Rightarrow> bool \<Rightarrow> manager \<Rightarrow> exn + json" where
  "get_formatted_history limit include_system m =
     (case py_copy (history m) of
        Inl e \<Rightarrow> Inl e
      | Inr h0 \<Rightarrow>
          (case (if \<not> include_system
                 then filter_history (\<lambda>v. v \<noteq> JStr ''system'') h0 else Inr h0) of
             Inl e \<Rightarrow> Inl e
           | Inr h1 \<Rightarrow>
               (case apply_limit limit h1 of
                  Inl e \<Rightarrow> Inl e
                | Inr h2 \<Rightarrow>
                    (case py_iter h2 of
                       Inl e \<Rightarrow> Inl e
                     | Inr msgs \<Rightarrow>
                         (case format_messages msgs of
                            Inl e \<Rightarrow> Inl e
                          | Inr out \<Rightarrow> Inr (JArr out))))))"

text \<open>
  \<^verbatim>\<open>clear_history\<close>: the backup is written by \<^verbatim>\<open>_save_to_file\<close> directly,
  outside any \<^verbatim>\<open>try\<close>, so its exception leaves the method before the history is
  touched. The save of the emptied history goes through \<^verbatim>\<open>_save_history\<close>.
\<close>

definition clear_history :: "clock \<Rightarrow> bool \<Rightarrow> manager \<Rightarrow> fs \<Rightarrow> result" where
  "clear_history c save_backup m d =
     (case (if save_backup \<and> py_truthy (history m)
            then save_to_file c m (backup_file c m) d else (None, d)) of
        (Some e, d1) \<Rightarrow> \<lparr>raised = Some e, self = m, disk = d1\<rparr>
      | (None, d1) \<Rightarrow>
          (let m1 = m\<lparr>history := JArr []\<rparr>
           in (case save_history c m1 d1 of
                 (r, d2) \<Rightarrow> \<lparr>raised = r, self = m1, disk = d2\<rparr>)))"

text \<open>
  The body of the \<^verbatim>\<open>try\<close> of \<^verbatim>\<open>import_history\<close>. \<open>extend\<close> exists on a
  list only and needs an iterable argument; the replacement assigns the imported value
  as it is. An exception after the assignment leaves the assigned value in place.
\<close>

definition import_body :: "clock \<Rightarrow> string \<Rightarrow> bool \<Rightarrow> manager \<Rightarrow> fs \<Rightarrow> result" where
  "import_body c filepath appending m d =
     (case read_json d filepath of
        Inl e \<Rightarrow> \<lparr>raised = Some e, self = m, disk = d\<rparr>
      | Inr data \<Rightarrow>
          (case get_history_field data of
             Inl e \<Rightarrow> \<lparr>raised = Some e, self = m, disk = d\<rparr>
           | Inr imported \<Rightarrow>
               (case (if appending
                      then (case history m of
                              JArr xs \<Rightarrow>
                                (case py_iter imported of
                                   Inl e \<Rightarrow> Inl e
                                 | Inr ys \<Rightarrow> Inr (m\<lparr>history := JArr (xs @ ys)\<rparr>))
                            | _ \<Rightarrow> Inl AttributeError)
                      else Inr (m\<lparr>history := imported\<rparr>)) of
                  Inl e \<Rightarrow> \<lparr>raised = Some e, self = m, disk = d\<rparr>
                | Inr m1 \<Rightarrow>
                    (case trim m1 of
                       (Some e, m2) \<Rightarrow> \<lparr>raised = Some e, self = m2, disk = d\<rparr>
                     | (None, m2) \<Rightarrow>
                         (case save_history c m2 d of
                            (r, d') \<Rightarrow> \<lparr>raised = r, self = m2, disk = d'\<rparr>)))))"

text \<open>
  \<^verbatim>\<open>import_history\<close>: the existence check stands before the \<^verbatim>\<open>try\<close>; a
  missing file is logged and nothing happens; otherwise the body, with
  \<^verbatim>\<open>except Exception\<close> around it.
\<close>

definition import_history :: "clock \<Rightarrow> string \<Rightarrow> bool \<Rightarrow> manager \<Rightarrow> fs \<Rightarrow> result" where
  "import_history c filepath appending m d =
     (case path_exists d filepath of
        Inl e \<Rightarrow> \<lparr>raised = Some e, self = m, disk = d\<rparr>
      | Inr there \<Rightarrow>
          (if \<not> there then \<lparr>raised = None, self = m, disk = d\<rparr>
           else (import_body c filepath appending m d)\<lparr>raised := None\<rparr>))"

section \<open>GPSFabricConnector\<close>

text \<open>
  The configuration; the connector copies its three fields in \<^verbatim>\<open>__init__\<close>.
\<close>

record GPSFabricConfig =
  fabric_endpoint :: string
  request_timeout :: int
  max_retries :: int

text \<open>
  What \<^verbatim>\<open>requests.post\<close> is called with, and what comes back: an exception, or
  a response with a status code and a body that parses as JSON (\<open>Some\<close>) or does not
  (\<open>None\<close>: \<^verbatim>\<open>response.json()\<close> raises a \<open>ValueError\<close>). The network answers
  the \<open>k\<close>-th call (counted from 1) of one \<^verbatim>\<open>send_coordinates\<close>.
\<close>

record request =
  url :: string
  body :: json
  headers :: "(string \<times> string) list"
  timeout :: int

record response =
  status_code :: int
  json_body :: "json option"

datatype post_outcome = Raises exn | Returns response

type_synonym network = "nat \<Rightarrow> request \<Rightarrow> post_outcome"

datatype event = Post request | Wait nat

text \<open>
  \<^verbatim>\<open>_get_coordinates\<close>, over the IO provider's
  \<^verbatim>\<open>get_dynamic_variable\<close> (a value, or \<open>None\<close>).
\<close>

definition get_coordinates :: "(string \<Rightarrow> json option) \<Rightarrow> json option" where
  "get_coordinates io =
     (let latitude = io ''latitude'';
          longitude = io ''longitude'';
          yaw = io ''yaw_deg''
      in (case (latitude, longitude, yaw) of
            (Some lat, Some lon, Some y) \<Rightarrow>
              Some (JObj [(''latitude'', lat), (''longitude'', lon), (''yaw'', y)])
          | _ \<Rightarrow> None))"

text \<open>The call of \<^verbatim>\<open>requests.post\<close> in \<^verbatim>\<open>_send_request\<close>.\<close>

definition make_request :: "GPSFabricConfig \<Rightarrow> json \<Rightarrow> request" where
  "make_request cfg coordinates =
     \<lparr>url = fabric_endpoint cfg,
      body = JObj [(''method'', JStr ''omp2p_shareStatus''),
                   (''params'', JArr [coordinates]),
                   (''id'', JInt 1),
                   (''jsonrpc'', JStr ''2.0'')],
      headers = [(''Content-Type'', ''application/json'')],
      timeout = request_timeout cfg\<rparr>"

text \<open>
  The decorator \<^verbatim>\<open>@retry(stop=stop_after_attempt(3), wait=wait_exponential(...),
  reraise=True)\<close>: call; on an exception wait and call again, unless this was the last
  attempt, whose exception is re-raised. \<open>left\<close> is the number of attempts still
  allowed after the current one, \<open>k\<close> the number of the current one.
\<close>

definition stop_after_attempt :: nat where
  "stop_after_attempt = 3"

fun attempts :: "nat \<Rightarrow> nat \<Rightarrow> network \<Rightarrow> request \<Rightarrow> event list \<times> post_outcome" where
  "attempts 0 k net rq = ([Post rq], net k rq)"
| "attempts (Suc left) k net rq =
     (case net k rq of
        Returns r \<Rightarrow> ([Post rq], Returns r)
      | Raises e \<Rightarrow>
          (case attempts left (Suc k) net rq of
             (tr, out) \<Rightarrow> (Post rq # Wait k # tr, out)))"

definition send_request :: "GPSFabricConfig \<Rightarrow> network \<Rightarrow> json \<Rightarrow> event list \<times> post_outcome" where
  "send_request cfg net coordinates =
     attempts (stop_after_attempt - 1) 1 net (make_request cfg coordinates)"

text \<open>\<^verbatim>\<open>response.raise_for_status()\<close>: statuses 400 to 599 raise.\<close>

definition raise_for_status :: "response \<Rightarrow> exn option" where
  "raise_for_status r =
     (if 400 \<le> status_code r \<and> status_code r < 600 then Some (HTTPError (status_code r))
      else None)"

text \<open>
  The test of the parsed body:
  \<^verbatim>\<open>if "result" in result and result["result"]: return True
  elif "error" in result: return False
  else: return False\<close>.
  The membership tests and the subscript raise on a body that is not a dict.
\<close>

definition error_branch :: "json \<Rightarrow> exn + bool" where
  "error_branch result =
     (case py_in ''error'' result of
        Inl e \<Rightarrow> Inl e
      | Inr b \<Rightarrow> (if b then Inr False else Inr False))"

definition check_result :: "json \<Rightarrow> exn + bool" where
  "check_result result =
     (case py_in ''result'' result of
        Inl e \<Rightarrow> Inl e
      | Inr b \<Rightarrow>
          (if b
           then (case py_getitem result ''result'' of
                   Inl e \<Rightarrow> Inl e
                 | Inr v \<Rightarrow> (if py_truthy v then Inr True else error_branch result))
           else error_branch result))"

text \<open>The body of the \<^verbatim>\<open>try\<close> of \<^verbatim>\<open>send_coordinates\<close>.\<close>

definition send_body :: "post_outcome \<Rightarrow> exn + bool" where
  "send_body out =
     (case out of
        Raises e \<Rightarrow> Inl e
      | Returns r \<Rightarrow>
          (case raise_for_status r of
             Some e \<Rightarrow> Inl e
           | None \<Rightarrow>
               (case json_body r of
                  None \<Rightarrow> Inr False
                | Some result \<Rightarrow> check_result result)))"

text \<open>
  The handlers, in the source's order: \<open>Timeout\<close>, \<open>ConnectionError\<close>,
  \<open>HTTPError\<close>, \<open>RequestException\<close>, \<open>Exception\<close>.
\<close>

fun send_handlers :: "exn \<Rightarrow> exn + bool" where
  "send_handlers Timeout = Inr False"
| "send_handlers ConnectionError = Inr False"
| "send_handlers (HTTPError status) = Inr False"
| "send_handlers RequestException = Inr False"
| "send_handlers e = Inr False"

text \<open>
  \<^verbatim>\<open>send_coordinates\<close>: the value returned or the exception that escapes, and the
  requests and waits it made.
\<close>

definition send_coordinates ::
  "GPSFabricConfig \<Rightarrow> (string \<Rightarrow> json option) \<Rightarrow> network \<Rightarrow> (exn + bool) \<times> event list" where
  "send_coordinates cfg io net =
     (case get_coordinates io of
        None \<Rightarrow> (Inr False, [])
      | Some coordinates \<Rightarrow>
          (case send_request cfg net coordinates of
             (tr, out) \<Rightarrow>
               (case send_body out of
                  Inl e \<Rightarrow> (send_handlers e, tr)
                | Inr b \<Rightarrow> (Inr b, tr))))"

definition posts :: "event list \<Rightarrow> request list" where
  "posts tr = concat (map (\<lambda>ev. case ev of Post rq \<Rightarrow> [rq] | Wait k \<Rightarrow> []) tr)"

section \<open>Simulator plugin lookup\<close>

text \<open>
  The classes the loader can meet: the two base classes of \<^verbatim>\<open>simulators.base\<close>
  and a class of a plugin module, with its name and whether it derives from
  \<open>Simulator\<close> and from \<open>SimulatorConfig\<close>. A module attribute is a class or some
  other object.
\<close>

datatype pyclass =
    SimulatorBase
  | SimulatorConfigBase
  | UserClass string bool bool

datatype pyobj = Class pyclass | NotAClass

datatype config_obj = Config pyclass "(string \<times> json) list"

datatype simulator_obj = SimulatorObj pyclass config_obj

fun issubclass_Simulator :: "pyclass \<Rightarrow> bool" where
  "issubclass_Simulator SimulatorBase = True"
| "issubclass_Simulator SimulatorConfigBase = False"
| "issubclass_Simulator (UserClass n sim cfg) = sim"

fun issubclass_SimulatorConfig :: "pyclass \<Rightarrow> bool" where
  "issubclass_SimulatorConfig SimulatorBase = False"
| "issubclass_SimulatorConfig SimulatorConfigBase = True"
| "issubclass_SimulatorConfig (UserClass n sim cfg) = cfg"

text \<open>
  The plugins directory: missing, present but not listable (\<^verbatim>\<open>os.listdir\<close>
  raises), or a listing of file names, each with its text or \<open>None\<close> when opening or
  reading it raises.
\<close>

datatype dir_state =
    Missing
  | Unlistable
  | Listing "(string \<times> string option) list"

text \<open>
  What the loader takes from its surroundings: the directory, \<^verbatim>\<open>re.search\<close>
  with \<^verbatim>\<open>re.MULTILINE\<close> (whether the pattern matches somewhere),
  \<^verbatim>\<open>re.escape\<close>, \<^verbatim>\<open>importlib.import_module\<close> (an exception, or the
  module's \<^verbatim>\<open>__dict__\<close> in order), \<^verbatim>\<open>str\<close> of a value that is not a string,
  and what the constructors of the plugin's classes raise.
\<close>

record sim_env =
  plugins :: dir_state
  re_search :: "string \<Rightarrow> string \<Rightarrow> bool"
  re_escape :: "string \<Rightarrow> string"
  import_module :: "string \<Rightarrow> exn + (string \<times> pyobj) list"
  str_of :: "json \<Rightarrow> string"
  config_init :: "pyclass \<Rightarrow> (string \<times> json) list \<Rightarrow> exn option"
  simulator_init :: "pyclass \<Rightarrow> config_obj \<Rightarrow> exn option"

definition endswith :: "string \<Rightarrow> string \<Rightarrow> bool" where
  "endswith s suffix =
     (length suffix \<le> length s \<and> drop (length s - length suffix) s = suffix)"

text \<open>
  The pattern
  \<^verbatim>\<open>rf"^class\s+{re.escape(class_name)}\s*\([^)]*Simulator[^)]*\)\s*:"\<close>.
\<close>

definition bsl :: char where
  "bsl = CHR 0x5C"

definition class_pattern :: "sim_env \<Rightarrow> string \<Rightarrow> string" where
  "class_pattern env class_name =
     ''^class'' @ [bsl] @ ''s+'' @ re_escape env class_name @ [bsl] @ ''s*'' @ [bsl]
       @ ''([^)]*Simulator[^)]*'' @ [bsl] @ '')'' @ [bsl] @ ''s*:''"

text \<open>
  The loop of \<^verbatim>\<open>find_module_with_class\<close>. A class name that is not a string makes
  \<^verbatim>\<open>re.escape\<close> raise inside the \<^verbatim>\<open>try\<close>, so the file is skipped like one
  that cannot be read.
\<close>

fun scan_plugins :: "sim_env \<Rightarrow> json \<Rightarrow> (string \<times> string option) list \<Rightarrow> string option" where
  "scan_plugins env class_name [] = None"
| "scan_plugins env class_name ((plugin_file, contents) # rest) =
     (case contents of
        None \<Rightarrow> scan_plugins env class_name rest
      | Some content \<Rightarrow>
          (case class_name of
             JStr n \<Rightarrow>
               (if re_search env (class_pattern env n) content
                then Some (take (length plugin_file - 3) plugin_file)
                else scan_plugins env class_name rest)
           | _ \<Rightarrow> scan_plugins env class_name rest))"

definition find_module_with_class :: "sim_env \<Rightarrow> json \<Rightarrow> exn + string option" where
  "find_module_with_class env class_name =
     (case plugins env of
        Missing \<Rightarrow> Inr None
      | Unlistable \<Rightarrow> Inl OSError
      | Listing fs \<Rightarrow>
          Inr (scan_plugins env class_name (filter (\<lambda>f. endswith (fst f) ''.py'') fs)))"

text \<open>\<^verbatim>\<open>f"...{class_name}..."\<close>.\<close>

definition fmt :: "sim_env \<Rightarrow> json \<Rightarrow> string" where
  "fmt env v = (case v of JStr s \<Rightarrow> s | _ \<Rightarrow> str_of env v)"

definition not_found_anywhere :: "string \<Rightarrow> exn" where
  "not_found_anywhere cn =
     ValueError (''Class '' @ [CHR 0x27] @ cn @ [CHR 0x27]
                 @ '' not found in any simulator plugin module'')"

text \<open>
  The two handlers both functions end with: \<open>ImportError\<close> and \<open>AttributeError\<close>
  become \<open>ValueError\<close>; anything else passes.
\<close>

fun lookup_handlers :: "string \<Rightarrow> string \<Rightarrow> exn \<Rightarrow> exn" where
  "lookup_handlers cn module_name (ImportError msg) =
     ValueError (''Could not import simulator module '' @ [CHR 0x27] @ module_name
                 @ [CHR 0x27] @ '': '' @ msg)"
| "lookup_handlers cn module_name AttributeError =
     ValueError (''Class '' @ [CHR 0x27] @ cn @ [CHR 0x27]
                 @ '' not found in simulator module '' @ [CHR 0x27] @ module_name @ [CHR 0x27])"
| "lookup_handlers cn module_name e = e"

text \<open>
  \<^verbatim>\<open>inspect.isclass(c) and issubclass(c, Simulator) and c != Simulator\<close>.
\<close>

fun strict_Simulator_subclass :: "pyobj \<Rightarrow> bool" where
  "strict_Simulator_subclass (Class c) = (issubclass_Simulator c \<and> c \<noteq> SimulatorBase)"
| "strict_Simulator_subclass NotAClass = False"

text \<open>
  The import and \<^verbatim>\<open>getattr(module, class_name)\<close>, the first two statements of
  the \<^verbatim>\<open>try\<close> of both functions.
\<close>

definition resolve :: "sim_env \<Rightarrow> string \<Rightarrow> string \<Rightarrow> exn + ((string \<times> pyobj) list \<times> pyobj)" where
  "resolve env module_name cn =
     (case import_module env (''simulators.plugins.'' @ module_name) of
        Inl e \<Rightarrow> Inl e
      | Inr mdl \<Rightarrow>
          (case map_of mdl cn of
             None \<Rightarrow> Inl AttributeError
           | Some obj \<Rightarrow> Inr (mdl, obj)))"

definition get_simulator_class :: "sim_env \<Rightarrow> string \<Rightarrow> exn + pyclass" where
  "get_simulator_class env class_name =
     (case find_module_with_class env (JStr class_name) of
        Inl e \<Rightarrow> Inl e
      | Inr None \<Rightarrow> Inl (not_found_anywhere class_name)
      | Inr (Some module_name) \<Rightarrow>
          (case (case resolve env module_name class_name of
                   Inl e \<Rightarrow> Inl e
                 | Inr (mdl, obj) \<Rightarrow>
                     (case obj of
                        Class c \<Rightarrow>
                          (if strict_Simulator_subclass obj then Inr c
                           else Inl (ValueError ([CHR 0x27] @ class_name @ [CHR 0x27]
                                       @ '' is not a valid Simulator subclass'')))
                      | NotAClass \<Rightarrow>
                          Inl (ValueError ([CHR 0x27] @ class_name @ [CHR 0x27]
                                 @ '' is not a valid Simulator subclass'')))) of
             Inl e \<Rightarrow> Inl (lookup_handlers class_name module_name e)
           | Inr c \<Rightarrow> Inr c))"

text \<open>
  The scan of \<^verbatim>\<open>module.__dict__\<close> for a strict subclass of \<open>SimulatorConfig\<close>:
  the last one found wins.
\<close>

fun find_config_class :: "(string \<times> pyobj) list \<Rightarrow> pyclass option \<Rightarrow> pyclass option" where
  "find_config_class [] acc = acc"
| "find_config_class ((n, obj) # rest) acc =
     (case obj of
        Class c \<Rightarrow>
          (if issubclass_SimulatorConfig c \<and> c \<noteq> SimulatorConfigBase
           then find_config_class rest (Some c)
           else find_config_class rest acc)
      | NotAClass \<Rightarrow> find_config_class rest acc)"

text \<open>
  The rest of the \<^verbatim>\<open>try\<close> of \<^verbatim>\<open>load_simulator\<close> once the class is accepted:
  pick the config class, build the config from the \<open>"config"\<close> entry when it is a dict,
  instantiate the simulator.
\<close>

definition instantiate ::
  "sim_env \<Rightarrow> (string \<times> json) list \<Rightarrow> (string \<times> pyobj) list \<Rightarrow> pyclass \<Rightarrow> exn + simulator_obj" where
  "instantiate env simulator_config mdl c =
     (let config_class = find_config_class mdl None;
          config_dict = (case map_of simulator_config ''config'' of
                           None \<Rightarrow> JObj [] | Some v \<Rightarrow> v);
          kwargs = (case config_dict of JObj kvs \<Rightarrow> kvs | _ \<Rightarrow> []);
          cc = (case config_class of None \<Rightarrow> SimulatorConfigBase | Some k \<Rightarrow> k)
      in (case config_init env cc kwargs of
            Some e \<Rightarrow> Inl e
          | None \<Rightarrow>
              (case simulator_init env c (Config cc kwargs) of
                 Some e \<Rightarrow> Inl e
               | None \<Rightarrow> Inr (SimulatorObj c (Config cc kwargs)))))"

definition load_simulator :: "sim_env \<Rightarrow> (string \<times> json) list \<Rightarrow> exn + simulator_obj" where
  "load_simulator env simulator_config =
     (case map_of simulator_config ''type'' of
        None \<Rightarrow> Inl KeyError
      | Some class_name \<Rightarrow>
          (case find_module_with_class env class_name of
             Inl e \<Rightarrow> Inl e
           | Inr None \<Rightarrow> Inl (not_found_anywhere (fmt env class_name))
           | Inr (Some module_name) \<Rightarrow>
               (case (case resolve env module_name (fmt env class_name) of
                        Inl e \<Rightarrow> Inl e
                      | Inr (mdl, obj) \<Rightarrow>
                          (case obj of
                             Class c \<Rightarrow>
                               (if strict_Simulator_subclass obj
                                then instantiate env simulator_config mdl c
                                else Inl (ValueError ([CHR 0x27] @ fmt env class_name @ [CHR 0x27]
                                            @ '' is not a valid simulator subclass'')))
                           | NotAClass \<Rightarrow>
                               Inl (ValueError ([CHR 0x27] @ fmt env class_name @ [CHR 0x27]
                                      @ '' is not a valid simulator subclass'')))) of
                  Inl e \<Rightarrow> Inl (lookup_handlers (fmt env class_name) module_name e)
                | Inr sim \<Rightarrow> Inr sim)))"

section \<open>Limits and filters as the specification words them\<close>

text \<open>
  The last \<open>min(k, length)\<close> elements of a list in their order, the field of a message,
  the messages of a role, the messages shown when system messages are excluded, and the
  two-field form of a message. The theorems on \<^verbatim>\<open>get_history\<close> and
  \<^verbatim>\<open>get_formatted_history\<close> compare the code with these.
\<close>

definition last_n :: "nat \<Rightarrow> 'a list \<Rightarrow> 'a list" where
  "last_n k ys = drop (length ys - min k (length ys)) ys"

definition field :: "json \<Rightarrow> string \<Rightarrow> json" where
  "field msg k = (case py_getitem msg k of Inr v \<Rightarrow> v | Inl e \<Rightarrow> JNull)"

definition matching :: "string option \<Rightarrow> json list \<Rightarrow> json list" where
  "matching role_filter xs =
     (case role_filter of
        None \<Rightarrow> xs
      | Some r \<Rightarrow> if r = [] then xs else filter (\<lambda>msg. field msg ''role'' = JStr r) xs)"

definition visible :: "bool \<Rightarrow> json list \<Rightarrow> json list" where
  "visible include_system xs =
     (if include_system then xs else filter (\<lambda>msg. field msg ''role'' \<noteq> JStr ''system'') xs)"

definition formatted :: "json \<Rightarrow> json" where
  "formatted msg = JObj [(''role'', field msg ''role''), (''content'', field msg ''content'')]"

section \<open>Lookup failures as the specification names them\<close>

text \<open>
  A listed file does not match a class name when it is not a \<open>.py\<close> file, cannot be
  read, or its text does not match the pattern. A lookup in the module found for the name
  fails when the import raises \<open>ImportError\<close>, when the module has no attribute of
  that name, or when the attribute is not a strict subclass of \<open>Simulator\<close>.
\<close>

definition no_match :: "sim_env \<Rightarrow> string \<Rightarrow> string \<times> string option \<Rightarrow> bool" where
  "no_match env n f =
     (\<not> endswith (fst f) ''.py''
      \<or> (case snd f of None \<Rightarrow> True
          | Some content \<Rightarrow> \<not> re_search env (class_pattern env n) content))"

definition lookup_fails :: "sim_env \<Rightarrow> string \<Rightarrow> string \<Rightarrow> bool" where
  "lookup_fails env mn n =
     (case import_module env (''simulators.plugins.'' @ mn) of
        Inl e \<Rightarrow> (case e of ImportError msg \<Rightarrow> True | _ \<Rightarrow> False)
      | Inr mdl \<Rightarrow>
          (case map_of mdl n of
             None \<Rightarrow> True
           | Some obj \<Rightarrow> \<not> strict_Simulator_subclass obj))"

section \<open>Concrete inputs\<close>

text \<open>The inputs at which the theorems below are instantiated.\<close>

definition c0 :: clock where
  "c0 = \<lparr>iso = ''2024-01-01T00:00:00'', stamp = ''20240101_000000''\<rparr>"

definition d0 :: fs where
  "d0 = \<lparr>files = Map.empty, read_denied = (\<lambda>p. False), write_denied = (\<lambda>p. False),
          mkdir_denied = (\<lambda>p. False), stat_denied = (\<lambda>p. False)\<rparr>"

definition msg_user :: json where
  "msg_user = JObj [(''role'', JStr ''user''), (''content'', JStr ''hello'')]"

definition msg_system :: json where
  "msg_system = JObj [(''role'', JStr ''system''), (''content'', JStr ''be brief'')]"

definition msg_assistant :: json where
  "msg_assistant = JObj [(''role'', JStr ''assistant''), (''content'', JStr ''hi'')]"

definition mgr :: "bool \<Rightarrow> int \<Rightarrow> json list \<Rightarrow> manager" where
  "mgr autosave maxsize msgs =
     \<lparr>history_dir = ''h'', agent_name = ''a'', auto_save = autosave,
      max_history_size = maxsize, history = JArr msgs\<rparr>"

definition msg_no_content :: json where
  "msg_no_content = JObj [(''role'', JStr ''user'')]"

text \<open>A disk whose only file is the history file of agent \<open>a\<close> in directory \<open>h\<close>.\<close>

definition disk_with :: "content \<Rightarrow> fs" where
  "disk_with x = d0\<lparr>files := [''h/a_history.json'' \<mapsto> x]\<rparr>"

definition saved_doc :: "json \<Rightarrow> json" where
  "saved_doc h = JObj [(''agent_name'', JStr ''a''), (''saved_at'', JStr ''2023-12-31T23:59:59''),
                       (''message_count'', JInt 4), (''history'', h)]"

text \<open>A disk on which no file can be written, and one on which only the temporary
  file of the backup cannot.\<close>

definition d_readonly :: fs where
  "d_readonly = d0\<lparr>write_denied := (\<lambda>p. True)\<rparr>"

definition d_no_backup :: fs where
  "d_no_backup = d0\<lparr>write_denied := (\<lambda>p. p = ''h/a_backup_20240101_000000.tmp'')\<rparr>"

text \<open>A connector configuration, two IO providers and two networks.\<close>

definition cfg0 :: GPSFabricConfig where
  "cfg0 = \<lparr>fabric_endpoint = ''http://localhost:8545'', request_timeout = 10, max_retries = 3\<rparr>"

definition io_full :: "string \<Rightarrow> json option" where
  "io_full = [''latitude'' \<mapsto> JFloat 1, ''longitude'' \<mapsto> JFloat 2, ''yaw_deg'' \<mapsto> JInt 90]"

definition io_no_yaw :: "string \<Rightarrow> json option" where
  "io_no_yaw = [''latitude'' \<mapsto> JFloat 1, ''longitude'' \<mapsto> JFloat 2]"

definition ok_response :: response where
  "ok_response = \<lparr>status_code = 200, json_body = Some (JObj [(''jsonrpc'', JStr ''2.0''), (''id'', JInt 1), (''result'', JBool True)])\<rparr>"

definition net_down :: network where
  "net_down k rq = Raises ConnectionError"

definition net_flaky :: network where
  "net_flaky k rq = (if k < 2 then Raises Timeout else Returns ok_response)"


definition coords0 :: json where
  "coords0 = JObj [(''latitude'', JFloat 1), (''longitude'', JFloat 2), (''yaw'', JInt 90)]"

text \<open>
  A plugins directory with one plugin and a module for it; the same with an import that
  raises \<open>ImportError\<close>, and with one that raises an exception of another class.
\<close>

definition env0 :: sim_env where
  "env0 = \<lparr>plugins = Listing [(''notes.txt'', Some ''class Rover(Simulator):''),
                               (''broken.py'', None),
                               (''rover.py'', Some ''class Rover(Simulator):'')],
           re_search = (\<lambda>pat content. is_substring ''Rover'' pat \<and> is_substring ''class Rover('' content),
           re_escape = (\<lambda>s. s),
           import_module = (\<lambda>name. if name = ''simulators.plugins.rover''
                                     then Inr [(''RoverConfig'', Class (UserClass ''RoverConfig'' False True)),
                                               (''Rover'', Class (UserClass ''Rover'' True False)),
                                               (''Helper'', Class (UserClass ''Helper'' False False)),
                                               (''Simulator'', Class SimulatorBase),
                                               (''VERSION'', NotAClass)]
                                     else Inl (ImportError ''No module'')),
           str_of = (\<lambda>v. ''?''),
           config_init = (\<lambda>c kw. None),
           simulator_init = (\<lambda>c cf. None)\<rparr>"


definition env_syntax :: sim_env where
  "env_syntax = env0\<lparr>import_module := (\<lambda>name. Inl (OtherException ''SyntaxError''))\<rparr>"

definition env_unimportable :: sim_env where
  "env_unimportable = env0\<lparr>import_module := (\<lambda>name. Inl (ImportError ''No module''))\<rparr>"

section \<open>Properties of the Python operations\<close>

lemma slice_from_neg: "0 < k \<Longrightarrow> slice_from (- k) xs = drop (length xs - nat k) xs"
  by (simp add: slice_from_def Let_def nat_diff_distrib' max_def)

lemma slice_from_drop: "\<exists>k. slice_from s xs = drop k xs"
  by (auto simp: slice_from_def Let_def)

section \<open>Properties of the conversation history manager\<close>

lemma trim_list:
  "history m = JArr xs \<Longrightarrow>
   trim m = (None, m\<lparr>history := JArr (if int (length xs) > max_history_size m
                                       then slice_from (- max_history_size m) xs else xs)\<rparr>)"
  by (simp add: trim_def)

lemma make_message_fields:
  "make_message c role content metadata =
     JObj [(''role'', JStr role), (''content'', JStr content), (''timestamp'', JStr (iso c)),
           (''metadata'', JObj (case metadata of None \<Rightarrow> [] | Some md \<Rightarrow> md))]"
  by (cases metadata) (auto simp: make_message_def)

lemma add_message_history:
  assumes "history m = JArr xs"
  shows "history (self (add_message c role content metadata m d)) =
         JArr (if int (length xs) + 1 > max_history_size m
               then slice_from (- max_history_size m) (xs @ [make_message c role content metadata])
               else xs @ [make_message c role content metadata])"
proof -
  define msg where "msg = make_message c role content metadata"
  define m1 where "m1 = m\<lparr>history := JArr (xs @ [msg])\<rparr>"
  have h1: "history m1 = JArr (xs @ [msg])" by (simp add: m1_def)
  have mx: "max_history_size m1 = max_history_size m" by (simp add: m1_def)
  note tr = trim_list [OF h1]
  have "add_message c role content metadata m d =
        (case trim m1 of
           (Some e, m2) \<Rightarrow> \<lparr>raised = Some e, self = m2, disk = d\<rparr>
         | (None, m2) \<Rightarrow>
             (if auto_save m2
              then (case save_history c m2 d of (r, d') \<Rightarrow> \<lparr>raised = r, self = m2, disk = d'\<rparr>)
              else \<lparr>raised = None, self = m2, disk = d\<rparr>))"
    using assms by (simp add: add_message_def m1_def msg_def Let_def)
  then show ?thesis unfolding tr
    by (simp add: mx msg_def split: prod.splits)
qed

text \<open>
  C8. The record that \<^verbatim>\<open>add_message\<close> appends to a list history has exactly the
  fields role, content, timestamp and metadata, in this order: role and content are the
  arguments, timestamp is the clock reading of the call, metadata is the supplied dict,
  or the empty dict when the argument is \<open>None\<close>. The history afterwards is a suffix of
  the old list followed by this record; with a positive \<open>max_history_size\<close> the suffix
  keeps the record.
\<close>

theorem add_message_record:
  assumes "history m = JArr xs"
  shows "\<exists>k. history (self (add_message c role content metadata m d)) =
           JArr (drop k (xs @ [JObj [(''role'', JStr role), (''content'', JStr content),
                                     (''timestamp'', JStr (iso c)),
                                     (''metadata'',
                                        JObj (case metadata of None \<Rightarrow> [] | Some md \<Rightarrow> md))]]))
         \<and> (0 < max_history_size m \<longrightarrow> k \<le> length xs)"
proof -
  define msg where "msg = make_message c role content metadata"
  define ys where "ys = xs @ [msg]"
  define mx where "mx = max_history_size m"
  define h where "h = history (self (add_message c role content metadata m d))"
  have res: "h = JArr (if int (length xs) + 1 > mx then slice_from (- mx) ys else ys)"
    unfolding h_def ys_def msg_def mx_def by (rule add_message_history [OF assms])
  have "\<exists>k. h = JArr (drop k ys) \<and> (0 < mx \<longrightarrow> k \<le> length xs)"
  proof (cases "int (length xs) + 1 > mx")
    case False
    then have "h = JArr (drop 0 ys)" using res by simp
    then show ?thesis by blast
  next
    case True
    show ?thesis
    proof (cases "0 < mx")
      case pos: True
      have "h = JArr (drop (length ys - nat mx) ys)"
        using True pos res by (simp add: slice_from_neg)
      moreover have "length ys - nat mx \<le> length xs"
        using pos by (simp add: ys_def)
      ultimately show ?thesis by blast
    next
      case False
      obtain k where "slice_from (- mx) ys = drop k ys"
        using slice_from_drop by blast
      with True res False show ?thesis by auto
    qed
  qed
  then show ?thesis
    unfolding h_def ys_def msg_def mx_def make_message_fields by simp
qed

theorem add_message_record_witness:
  "history (self (add_message c0 ''user'' ''hello'' None (mgr False 1 [msg_system]) d0)) =
     JArr [JObj [(''role'', JStr ''user''), (''content'', JStr ''hello''),
                 (''timestamp'', JStr ''2024-01-01T00:00:00''), (''metadata'', JObj [])]]"
  using add_message_record [of "mgr False 1 [msg_system]" "[msg_system]" c0 "''user''" "''hello''" None d0]
  by (auto simp: mgr_def c0_def add_message_history slice_from_neg make_message_def)

lemma valid_message_getitem:
  assumes "valid_message msg"
  shows "py_getitem msg ''role'' = Inr (field msg ''role'')"
    and "py_getitem msg ''content'' = Inr (field msg ''content'')"
proof -
  obtain kvs where m: "msg = JObj kvs" using assms by (cases msg) auto
  from assms m have "map_of kvs ''role'' \<noteq> None" "map_of kvs ''content'' \<noteq> None"
    by (auto simp: map_of_eq_None_iff)
  then show "py_getitem msg ''role'' = Inr (field msg ''role'')"
    and "py_getitem msg ''content'' = Inr (field msg ''content'')"
    by (auto simp: m field_def)
qed

lemma filter_role_valid:
  "list_all valid_message xs \<Longrightarrow>
   filter_role P xs = Inr (filter (\<lambda>msg. P (field msg ''role'')) xs)"
  by (induction xs) (auto simp: valid_message_getitem)

lemma format_messages_valid:
  "list_all valid_message xs \<Longrightarrow> format_messages xs = Inr (map formatted xs)"
  by (induction xs) (auto simp: valid_message_getitem formatted_def)

lemma list_all_drop: "list_all P xs \<Longrightarrow> list_all P (drop k xs)"
  by (metis append_take_drop_id list_all_append)

lemma list_all_filter: "list_all P xs \<Longrightarrow> list_all P (filter Q xs)"
  by (induction xs) auto

lemma last_n_slice: "0 < n \<Longrightarrow> slice_from (- n) ys = last_n (nat n) ys"
  by (simp add: slice_from_neg last_n_def min_def)

lemma list_all_matching: "list_all P xs \<Longrightarrow> list_all P (matching rf xs)"
  by (auto simp: matching_def list_all_filter split: option.splits)

lemma list_all_visible: "list_all P xs \<Longrightarrow> list_all P (visible inc xs)"
  by (auto simp: visible_def list_all_filter)

lemma get_history_valid:
  assumes "history m = JArr xs" "list_all valid_message xs"
  shows "get_history limit rf m = apply_limit limit (JArr (matching rf xs))"
  using assms
  by (auto simp: get_history_def matching_def filter_history_def filter_role_valid
      split: option.splits)

lemma get_formatted_history_valid:
  assumes "history m = JArr xs" "list_all valid_message xs"
  shows "get_formatted_history limit inc m =
         (case apply_limit limit (JArr (visible inc xs)) of
            Inl e \<Rightarrow> Inl e
          | Inr h \<Rightarrow> (case py_iter h of Inl e \<Rightarrow> Inl e
                       | Inr msgs \<Rightarrow> (case format_messages msgs of Inl e \<Rightarrow> Inl e | Inr out \<Rightarrow> Inr (JArr out))))"
  using assms
  by (auto simp: get_formatted_history_def visible_def filter_history_def filter_role_valid)

text \<open>
  C10. On a list history whose messages all have a role and a content:
  \<^verbatim>\<open>get_history\<close> and \<^verbatim>\<open>get_formatted_history\<close> called with \<open>limit = 0\<close>
  return the whole filtered history, not the empty list; with a positive limit \<open>n\<close>
  they return the last \<open>min(n, length)\<close> messages of the filtered history, in their
  order.
\<close>

theorem limit_semantics:
  assumes "history m = JArr xs" and "list_all valid_message xs"
  shows "get_history (Some 0) rf m = Inr (JArr (matching rf xs))
       \<and> get_formatted_history (Some 0) inc m = Inr (JArr (map formatted (visible inc xs)))
       \<and> (0 < n \<longrightarrow>
            get_history (Some n) rf m = Inr (JArr (last_n (nat n) (matching rf xs)))
          \<and> get_formatted_history (Some n) inc m =
              Inr (JArr (map formatted (last_n (nat n) (visible inc xs))))
          \<and> length (last_n (nat n) (matching rf xs)) = min (nat n) (length (matching rf xs)))"
proof -
  have v: "list_all valid_message (visible inc xs)"
    using assms(2) by (rule list_all_visible)
  have a: "get_history (Some 0) rf m = Inr (JArr (matching rf xs))"
    by (simp add: get_history_valid [OF assms] apply_limit_def)
  have b: "get_formatted_history (Some 0) inc m = Inr (JArr (map formatted (visible inc xs)))"
    by (simp add: get_formatted_history_valid [OF assms] apply_limit_def format_messages_valid [OF v])
  have c: "get_history (Some n) rf m = Inr (JArr (last_n (nat n) (matching rf xs)))" if "0 < n"
    using that by (simp add: get_history_valid [OF assms] apply_limit_def last_n_slice)
  have vd: "list_all valid_message (last_n (nat n) (visible inc xs))"
    unfolding last_n_def using v by (rule list_all_drop)
  have d: "get_formatted_history (Some n) inc m =
             Inr (JArr (map formatted (last_n (nat n) (visible inc xs))))" if "0 < n"
    using that
    by (simp add: get_formatted_history_valid [OF assms] apply_limit_def last_n_slice
        format_messages_valid [OF vd])
  have e: "length (last_n (nat n) (matching rf xs)) = min (nat n) (length (matching rf xs))"
    by (simp add: last_n_def)
  from a b c d e show ?thesis by blast
qed

theorem limit_semantics_witness:
  "get_history (Some 0) (Some ''user'') (mgr False 9 [msg_system, msg_user, msg_assistant, msg_user])
     = Inr (JArr [msg_user, msg_user])
 \<and> get_formatted_history (Some 0) False (mgr False 9 [msg_system, msg_user, msg_assistant, msg_user])
     = Inr (JArr [msg_user, msg_assistant, msg_user])
 \<and> get_history (Some 1) (Some ''user'') (mgr False 9 [msg_system, msg_user, msg_assistant, msg_user])
     = Inr (JArr [msg_user])
 \<and> get_formatted_history (Some 2) False (mgr False 9 [msg_system, msg_user, msg_assistant, msg_user])
     = Inr (JArr [msg_assistant, msg_user])"
  using limit_semantics [of "mgr False 9 [msg_system, msg_user, msg_assistant, msg_user]"
      "[msg_system, msg_user, msg_assistant, msg_user]" "Some ''user''" False 1]
    limit_semantics [of "mgr False 9 [msg_system, msg_user, msg_assistant, msg_user]"
      "[msg_system, msg_user, msg_assistant, msg_user]" "Some ''user''" False 2]
  by (simp add: mgr_def msg_system_def msg_user_def msg_assistant_def matching_def visible_def
      formatted_def field_def last_n_def)

lemma load_history_cases:
  "load_history m d =
     (if stat_denied d (history_file m) then (Some OSError, m)
      else (None,
            if files d (history_file m) = None then m
            else (case read_json d (history_file m) of
                    Inl e \<Rightarrow> m
                  | Inr data \<Rightarrow>
                      (case get_history_field data of
                         Inl e \<Rightarrow> m
                       | Inr h \<Rightarrow>
                           (case py_iter h of
                              Inl e \<Rightarrow> m\<lparr>history := h\<rparr>
                            | Inr msgs \<Rightarrow> m\<lparr>history := JArr (filter valid_message msgs)\<rparr>)))))"
  by (simp add: load_history_def load_body_def path_exists_def Let_def split: sum.splits)

lemma list_all_filter_self: "list_all P (filter P xs)"
  by (induction xs) auto

text \<open>
  What the load does validate: when the existence check succeeds and the file holds an
  object with a list under \<open>"history"\<close>, \<^verbatim>\<open>_load_history\<close> returns normally and the
  history is that list without the entries that fail the test; they are dropped, in
  place, and the load goes on.
\<close>

lemma load_history_filters_list:
  assumes "\<not> stat_denied d (history_file m)" and "\<not> read_denied d (history_file m)"
    and "files d (history_file m) = Some (Text (JObj kvs))"
    and "map_of kvs ''history'' = Some (JArr xs)"
  shows "load_history m d = (None, m\<lparr>history := JArr (filter valid_message xs)\<rparr>)"
    and "list_all valid_message (filter valid_message xs)"
  using assms by (simp_all add: load_history_cases read_json_def list_all_filter_self)

text \<open>
  C7. The history loaded on startup is not always validated. The loader assigns the
  value found under \<open>"history"\<close> to the object before the validating comprehension
  runs; when that value cannot be iterated (a number, \<open>null\<close>, a boolean) the
  comprehension raises, the handler logs that the manager starts with an empty history,
  and the raw value stays in memory: the history is then no list of dicts with a
  \<open>"role"\<close> and a \<open>"content"\<close> key. At a history file holding \<open>5\<close> under
  \<open>"history"\<close> the load returns with the history \<open>5\<close>, and the constructor, which
  logs the length of the history next, raises \<open>TypeError\<close>.
\<close>

theorem load_keeps_unvalidated_value:
  "load_history (mgr False 9 []) (disk_with (Text (saved_doc (JInt 5))))
     = (None, \<lparr>history_dir = ''h'', agent_name = ''a'', auto_save = False,
               max_history_size = 9, history = JInt 5\<rparr>)
 \<and> py_iter (JInt 5) = Inl TypeError
 \<and> init ''h'' ''a'' False 9 (disk_with (Text (saved_doc (JInt 5)))) = Inl TypeError"
  by (simp add: init_def load_history_cases read_json_def mgr_def disk_with_def
      d0_def saved_doc_def history_file_def path_join_def)

text \<open>
  The sibling path: with a positive \<open>max_history_size\<close>, \<^verbatim>\<open>add_message\<close> on a
  list history leaves at most \<open>max_history_size\<close> messages.
\<close>

lemma add_message_trims:
  assumes "history m = JArr xs" and "0 < max_history_size m"
  shows "\<exists>ys. history (self (add_message c role content metadata m d)) = JArr ys
              \<and> int (length ys) \<le> max_history_size m"
  using assms by (auto simp: add_message_history slice_from_neg)

text \<open>
  C1. The bound is not kept by the load: a history file with two valid messages, read by
  a manager constructed with \<open>max_history_size = 1\<close>, leaves both messages in memory.
\<close>

theorem init_loads_beyond_bound:
  "init ''h'' ''a'' False 1 (disk_with (Text (saved_doc (JArr [msg_user, msg_assistant]))))
     = Inr (mgr False 1 [msg_user, msg_assistant])
 \<and> py_len (history (mgr False 1 [msg_user, msg_assistant])) = Inr 2"
  by (simp add: init_def load_history_cases read_json_def mgr_def disk_with_def
      d0_def saved_doc_def history_file_def path_join_def msg_user_def msg_assistant_def)

lemma save_to_file_perm:
  "write_denied (snd (save_to_file c m p d)) = write_denied d"
  "read_denied (snd (save_to_file c m p d)) = read_denied d"
  by (auto simp: save_to_file_def Let_def split: sum.splits)

lemma save_to_file_frame:
  assumes "q \<noteq> p" and "with_suffix p ''.tmp'' \<noteq> Inr q"
  shows "files (snd (save_to_file c m p d)) q = files d q"
  using assms by (auto simp: save_to_file_def Let_def split: sum.splits)

lemma save_to_file_ok:
  assumes "fst (save_to_file c m p d) = None"
  shows "\<exists>n. py_len (history m) = Inr n \<and> files (snd (save_to_file c m p d)) p = Some (Text (save_data c m n))"
  using assms by (auto simp: save_to_file_def Let_def split: sum.splits if_splits)

lemma save_to_file_written:
  assumes "py_len (history m) = Inr n" "with_suffix p ''.tmp'' = Inr t"
    "\<not> write_denied d t" "\<not> write_denied d p"
  shows "save_to_file c m p d =
         (None, d\<lparr>files := ((files d)(t := None))(p \<mapsto> Text (save_data c m n))\<rparr>)"
  using assms by (auto simp: save_to_file_def Let_def)

lemma save_history_def2:
  "save_history c m d = (None, snd (save_to_file c m (history_file m) d))"
  by (auto simp: save_history_def split: prod.splits option.splits)

lemma with_suffix_last:
  "with_suffix p s = Inr t \<Longrightarrow> s \<noteq> [] \<Longrightarrow> last t = last s"
  by (auto simp: with_suffix_def split: if_splits)

lemma backup_not_history: "backup_file c m \<noteq> history_file m"
  by (simp add: backup_file_def history_file_def path_join_def)

lemma backup_not_history_tmp: "with_suffix (history_file m) ''.tmp'' \<noteq> Inr (backup_file c m)"
proof
  assume "with_suffix (history_file m) ''.tmp'' = Inr (backup_file c m)"
  then have "last (backup_file c m) = last ''.tmp''" by (rule with_suffix_last) simp
  then show False by (simp add: backup_file_def path_join_def)
qed

lemma save_history_keeps_backup:
  "files (snd (save_history c m' d)) (backup_file c m) = files d (backup_file c m)"
  if "history_dir m' = history_dir m" "agent_name m' = agent_name m"
proof -
  have hf: "history_file m' = history_file m" using that by (simp add: history_file_def)
  show ?thesis
    unfolding save_history_def2 hf snd_conv
    by (rule save_to_file_frame) (simp_all add: backup_not_history backup_not_history_tmp)
qed



lemma history_not_backup_tmp: "with_suffix (backup_file c m) ''.tmp'' \<noteq> Inr (history_file m)"
proof
  assume "with_suffix (backup_file c m) ''.tmp'' = Inr (history_file m)"
  then have "last (history_file m) = last ''.tmp''" by (rule with_suffix_last) simp
  then show False by (simp add: history_file_def path_join_def)
qed

lemma backup_keeps_history_file:
  "files (snd (save_to_file c m (backup_file c m) d)) (history_file m) = files d (history_file m)"
  by (rule save_to_file_frame) (simp_all add: backup_not_history [symmetric] history_not_backup_tmp)

lemma clear_history_aborts:
  assumes "sb" "py_truthy (history m)" "fst (save_to_file c m (backup_file c m) d) = Some e"
  shows "raised (clear_history c sb m d) = Some e" "self (clear_history c sb m d) = m"
    "disk (clear_history c sb m d) = snd (save_to_file c m (backup_file c m) d)"
  using assms by (auto simp: clear_history_def split: prod.splits option.splits)

lemma clear_history_proceeds:
  assumes "\<not> (sb \<and> py_truthy (history m)) \<or> fst (save_to_file c m (backup_file c m) d) = None"
  shows "clear_history c sb m d =
         \<lparr>raised = None, self = m\<lparr>history := JArr []\<rparr>,
          disk = snd (save_history c (m\<lparr>history := JArr []\<rparr>)
                   (if sb \<and> py_truthy (history m)
                    then snd (save_to_file c m (backup_file c m) d) else d))\<rparr>"
  using assms
  by (auto simp: clear_history_def Let_def save_history_def2 split: prod.splits option.splits)

text \<open>
  C4, as stated, at a disk where the temporary file of the backup cannot be written:
  the exception of the backup leaves \<^verbatim>\<open>clear_history\<close>, the history is still in
  memory and the history file was not written.
\<close>

theorem clear_history_backup_failure:
  "raised (clear_history c0 True (mgr False 5 [msg_user]) d_no_backup) = Some OSError
 \<and> history (self (clear_history c0 True (mgr False 5 [msg_user]) d_no_backup)) = JArr [msg_user]
 \<and> files (disk (clear_history c0 True (mgr False 5 [msg_user]) d_no_backup)) ''h/a_history.json'' = None"
  by (simp add: clear_history_def save_to_file_def mgr_def c0_def d0_def d_no_backup_def
      backup_file_def path_join_def with_suffix_def path_name_def path_suffix_def Let_def)

text \<open>
  C4, amended. With \<open>save_backup\<close> set and a non-empty history, \<^verbatim>\<open>clear_history\<close>
  first writes the backup; if that write raises, the exception leaves the method, the
  object is unchanged (the history is not cleared) and the history file is as it was
  (nothing is persisted). Otherwise the method returns normally with the empty history in
  memory, and the history file holds the empty history whenever its temporary file and
  the file itself can be written. After a successful backup the timestamped backup file
  holds the history as it was. Without \<open>save_backup\<close>, or on an empty history, the
  backup file is not touched.
\<close>

theorem clear_history_backup:
  "(sb \<and> py_truthy (history m) \<and> fst (save_to_file c m (backup_file c m) d) \<noteq> None \<longrightarrow>
      raised (clear_history c sb m d) = fst (save_to_file c m (backup_file c m) d)
    \<and> self (clear_history c sb m d) = m
    \<and> files (disk (clear_history c sb m d)) (history_file m) = files d (history_file m))
 \<and> (\<not> (sb \<and> py_truthy (history m)) \<or> fst (save_to_file c m (backup_file c m) d) = None \<longrightarrow>
      raised (clear_history c sb m d) = None
    \<and> history (self (clear_history c sb m d)) = JArr []
    \<and> (\<forall>t. with_suffix (history_file m) ''.tmp'' = Inr t \<and> \<not> write_denied d t
            \<and> \<not> write_denied d (history_file m) \<longrightarrow>
          files (disk (clear_history c sb m d)) (history_file m) =
            Some (Text (save_data c (m\<lparr>history := JArr []\<rparr>) 0))))
 \<and> (sb \<and> py_truthy (history m) \<and> fst (save_to_file c m (backup_file c m) d) = None \<longrightarrow>
      (\<exists>n. py_len (history m) = Inr n
         \<and> files (disk (clear_history c sb m d)) (backup_file c m) = Some (Text (save_data c m n))))
 \<and> (\<not> (sb \<and> py_truthy (history m)) \<longrightarrow>
      files (disk (clear_history c sb m d)) (backup_file c m) = files d (backup_file c m))"
proof (intro conjI impI)
  assume a: "sb \<and> py_truthy (history m) \<and> fst (save_to_file c m (backup_file c m) d) \<noteq> None"
  then obtain e where e: "fst (save_to_file c m (backup_file c m) d) = Some e" by auto
  from a e show "raised (clear_history c sb m d) = fst (save_to_file c m (backup_file c m) d)"
    by (simp add: clear_history_aborts)
  from a e show "self (clear_history c sb m d) = m"
    by (simp add: clear_history_aborts(2))
  from a e show "files (disk (clear_history c sb m d)) (history_file m) = files d (history_file m)"
    by (simp add: clear_history_aborts(3) backup_keeps_history_file)
next
  assume a: "\<not> (sb \<and> py_truthy (history m)) \<or> fst (save_to_file c m (backup_file c m) d) = None"
  note r = clear_history_proceeds [OF a]
  show "raised (clear_history c sb m d) = None" by (simp add: r)
  show "history (self (clear_history c sb m d)) = JArr []" by (simp add: r)
  show "\<forall>t. with_suffix (history_file m) ''.tmp'' = Inr t \<and> \<not> write_denied d t
            \<and> \<not> write_denied d (history_file m) \<longrightarrow>
          files (disk (clear_history c sb m d)) (history_file m) =
            Some (Text (save_data c (m\<lparr>history := JArr []\<rparr>) 0))"
  proof (intro allI impI)
    fix t
    assume w: "with_suffix (history_file m) ''.tmp'' = Inr t \<and> \<not> write_denied d t
            \<and> \<not> write_denied d (history_file m)"
    define m1 where "m1 = m\<lparr>history := JArr []\<rparr>"
    define d1 where "d1 = (if sb \<and> py_truthy (history m)
                           then snd (save_to_file c m (backup_file c m) d) else d)"
    have hf: "history_file m1 = history_file m" by (simp add: m1_def history_file_def)
    have wd: "write_denied d1 = write_denied d" by (simp add: d1_def save_to_file_perm)
    have "save_to_file c m1 (history_file m) d1 =
          (None, d1\<lparr>files := ((files d1)(t := None))(history_file m \<mapsto> Text (save_data c m1 0))\<rparr>)"
      using w wd by (intro save_to_file_written) (simp_all add: m1_def)
    then show "files (disk (clear_history c sb m d)) (history_file m) =
            Some (Text (save_data c (m\<lparr>history := JArr []\<rparr>) 0))"
      by (simp add: r save_history_def2 hf flip: m1_def d1_def)
  qed
next
  assume a: "sb \<and> py_truthy (history m) \<and> fst (save_to_file c m (backup_file c m) d) = None"
  then have r: "clear_history c sb m d =
         \<lparr>raised = None, self = m\<lparr>history := JArr []\<rparr>,
          disk = snd (save_history c (m\<lparr>history := JArr []\<rparr>)
                   (snd (save_to_file c m (backup_file c m) d)))\<rparr>"
    using clear_history_proceeds [of sb m c d] by simp
  from a obtain n where n: "py_len (history m) = Inr n"
      "files (snd (save_to_file c m (backup_file c m) d)) (backup_file c m) = Some (Text (save_data c m n))"
    using save_to_file_ok by blast
  have "files (disk (clear_history c sb m d)) (backup_file c m) =
        files (snd (save_to_file c m (backup_file c m) d)) (backup_file c m)"
    unfolding r by (simp add: save_history_keeps_backup)
  with n show "\<exists>n. py_len (history m) = Inr n
         \<and> files (disk (clear_history c sb m d)) (backup_file c m) = Some (Text (save_data c m n))"
    by simp
next
  assume a: "\<not> (sb \<and> py_truthy (history m))"
  then have r: "clear_history c sb m d =
         \<lparr>raised = None, self = m\<lparr>history := JArr []\<rparr>,
          disk = snd (save_history c (m\<lparr>history := JArr []\<rparr>) d)\<rparr>"
    using clear_history_proceeds [of sb m c d] by auto
  show "files (disk (clear_history c sb m d)) (backup_file c m) = files d (backup_file c m)"
    unfolding r by (simp add: save_history_keeps_backup)
qed

theorem clear_history_backup_witness:
  "raised (clear_history c0 True (mgr False 5 [msg_user]) d0) = None
 \<and> history (self (clear_history c0 True (mgr False 5 [msg_user]) d0)) = JArr []
 \<and> files (disk (clear_history c0 True (mgr False 5 [msg_user]) d0)) ''h/a_history.json'' =
     Some (Text (JObj [(''agent_name'', JStr ''a''), (''saved_at'', JStr ''2024-01-01T00:00:00''),
                       (''message_count'', JInt 0), (''history'', JArr [])]))
 \<and> files (disk (clear_history c0 True (mgr False 5 [msg_user]) d0)) ''h/a_backup_20240101_000000.json'' =
     Some (Text (JObj [(''agent_name'', JStr ''a''), (''saved_at'', JStr ''2024-01-01T00:00:00''),
                       (''message_count'', JInt 1), (''history'', JArr [msg_user])]))"
proof -
  have ok: "fst (save_to_file c0 (mgr False 5 [msg_user]) (backup_file c0 (mgr False 5 [msg_user])) d0) = None"
    by (simp add: save_to_file_def mgr_def c0_def d0_def backup_file_def path_join_def
        with_suffix_def path_name_def path_suffix_def Let_def)
  have tmp: "with_suffix (history_file (mgr False 5 [msg_user])) ''.tmp'' = Inr ''h/a_history.tmp''"
    by (simp add: mgr_def history_file_def path_join_def with_suffix_def path_name_def
        path_suffix_def Let_def)
  have hf: "history_file (mgr False 5 [msg_user]) = ''h/a_history.json''"
    by (simp add: mgr_def history_file_def path_join_def)
  have bf: "backup_file c0 (mgr False 5 [msg_user]) = ''h/a_backup_20240101_000000.json''"
    by (simp add: mgr_def backup_file_def path_join_def c0_def)
  have tr: "py_truthy (history (mgr False 5 [msg_user]))" by (simp add: mgr_def)
  show ?thesis
    using clear_history_backup [of True "mgr False 5 [msg_user]" c0 d0] ok tmp tr
    unfolding hf bf
    by (simp add: save_data_def mgr_def c0_def d0_def)
qed

text \<open>
  C5, as stated, at a disk where nothing can be written: the save after
  \<^verbatim>\<open>add_message\<close> raises inside \<^verbatim>\<open>_save_history\<close>, is caught, and the
  history in memory is the appended message, not the empty list.
\<close>

theorem save_failure_keeps_history:
  "fst (save_to_file c0 (mgr True 5 [make_message c0 ''user'' ''hello'' None])
          (history_file (mgr True 5 [])) d_readonly) = Some OSError
 \<and> raised (add_message c0 ''user'' ''hello'' None (mgr True 5 []) d_readonly) = None
 \<and> history (self (add_message c0 ''user'' ''hello'' None (mgr True 5 []) d_readonly)) =
     JArr [JObj [(''role'', JStr ''user''), (''content'', JStr ''hello''),
                 (''timestamp'', JStr ''2024-01-01T00:00:00''), (''metadata'', JObj [])]]"
  by (simp add: add_message_def trim_def save_history_def save_to_file_def make_message_def
      mgr_def c0_def d0_def d_readonly_def history_file_def path_join_def with_suffix_def
      path_name_def path_suffix_def Let_def)

lemma add_message_self:
  assumes "history m = JArr xs"
  shows "raised (add_message c role content metadata m d) = None"
    and "self (add_message c role content metadata m d) =
         snd (trim (m\<lparr>history := JArr (xs @ [make_message c role content metadata])\<rparr>))"
  using assms
  by (simp_all add: add_message_def trim_list Let_def save_history_def2)

lemma import_history_self:
  "self (import_history c filepath appending m (d\<lparr>write_denied := w\<rparr>)) =
   self (import_history c filepath appending m d)"
  "raised (import_history c filepath appending m (d\<lparr>write_denied := w\<rparr>)) =
   raised (import_history c filepath appending m d)"
  by (simp_all add: import_history_def import_body_def path_exists_def read_json_def
      save_history_def2 split: sum.splits option.splits content.splits json.splits prod.splits)

lemma load_failure_cases:
  assumes "\<not> stat_denied d (history_file m)"
    and "files d (history_file m) = None
         \<or> isl (read_json d (history_file m))
         \<or> (\<exists>data. read_json d (history_file m) = Inr data \<and> isl (get_history_field data))"
  shows "load_history m d = (None, m)"
  using assms by (auto simp: load_history_cases isl_def split: sum.splits)

text \<open>
  C5, amended. An error raised while writing the history file is caught inside
  \<^verbatim>\<open>_save_history\<close> and never leaves it, and it leaves the history in memory as it
  is: \<^verbatim>\<open>add_message\<close> on a list history returns normally with the object as it was
  when the save started, \<^verbatim>\<open>clear_history\<close> without a backup to write ends with the
  empty history, and what \<^verbatim>\<open>import_history\<close> leaves in memory and raises does not
  depend on which files can be written. When the existence check of the history file
  succeeds and the file is missing, cannot be opened or read, does not hold JSON, or
  holds a JSON document that is not an object, \<^verbatim>\<open>_load_history\<close> returns normally
  and leaves the object as it is, so that the constructor (when it can create the
  directory) returns a manager with the empty history.
\<close>

theorem persistence_errors_contained:
  "fst (save_history c m d) = None
 \<and> (history m = JArr xs \<longrightarrow>
      raised (add_message c role content metadata m d) = None
    \<and> self (add_message c role content metadata m d) =
        snd (trim (m\<lparr>history := JArr (xs @ [make_message c role content metadata])\<rparr>)))
 \<and> (\<not> (sb \<and> py_truthy (history m)) \<longrightarrow>
      raised (clear_history c sb m d) = None
    \<and> self (clear_history c sb m d) = m\<lparr>history := JArr []\<rparr>)
 \<and> self (import_history c filepath appending m (d\<lparr>write_denied := w\<rparr>)) =
     self (import_history c filepath appending m d)
 \<and> raised (import_history c filepath appending m (d\<lparr>write_denied := w\<rparr>)) =
     raised (import_history c filepath appending m d)
 \<and> (\<not> stat_denied d (history_file m)
      \<and> (files d (history_file m) = None
         \<or> isl (read_json d (history_file m))
         \<or> (\<exists>data. read_json d (history_file m) = Inr data \<and> isl (get_history_field data)))
      \<longrightarrow> load_history m d = (None, m))
 \<and> (\<not> mkdir_denied d dir
      \<and> \<not> stat_denied d (path_join dir (name @ ''_history.json''))
      \<and> (files d (path_join dir (name @ ''_history.json'')) = None
         \<or> isl (read_json d (path_join dir (name @ ''_history.json'')))
         \<or> (\<exists>data. read_json d (path_join dir (name @ ''_history.json'')) = Inr data
                  \<and> isl (get_history_field data)))
      \<longrightarrow> init dir name autosave maxsize d =
            Inr \<lparr>history_dir = dir, agent_name = name, auto_save = autosave,
                 max_history_size = maxsize, history = JArr []\<rparr>)"
proof (intro conjI impI)
  show "fst (save_history c m d) = None" by (simp add: save_history_def2)
next
  assume h: "history m = JArr xs"
  show "raised (add_message c role content metadata m d) = None"
    by (rule add_message_self(1) [OF h])
  show "self (add_message c role content metadata m d) =
        snd (trim (m\<lparr>history := JArr (xs @ [make_message c role content metadata])\<rparr>))"
    by (rule add_message_self(2) [OF h])
next
  assume nb: "\<not> (sb \<and> py_truthy (history m))"
  then have r: "clear_history c sb m d =
         \<lparr>raised = None, self = m\<lparr>history := JArr []\<rparr>,
          disk = snd (save_history c (m\<lparr>history := JArr []\<rparr>) d)\<rparr>"
    using clear_history_proceeds [of sb m c d] by auto
  show "raised (clear_history c sb m d) = None" by (simp add: r)
  show "self (clear_history c sb m d) = m\<lparr>history := JArr []\<rparr>" by (simp add: r)
next
  show "self (import_history c filepath appending m (d\<lparr>write_denied := w\<rparr>)) =
     self (import_history c filepath appending m d)"
    by (rule import_history_self(1))
  show "raised (import_history c filepath appending m (d\<lparr>write_denied := w\<rparr>)) =
     raised (import_history c filepath appending m d)"
    by (rule import_history_self(2))
next
  assume "\<not> stat_denied d (history_file m)
      \<and> (files d (history_file m) = None
         \<or> isl (read_json d (history_file m))
         \<or> (\<exists>data. read_json d (history_file m) = Inr data \<and> isl (get_history_field data)))"
  then show "load_history m d = (None, m)"
    using load_failure_cases [of d m] by blast
next
  define m0 where "m0 = \<lparr>history_dir = dir, agent_name = name, auto_save = autosave,
                          max_history_size = maxsize, history = JArr []\<rparr>"
  have hf: "history_file m0 = path_join dir (name @ ''_history.json'')"
    by (simp add: m0_def history_file_def)
  assume a: "\<not> mkdir_denied d dir
      \<and> \<not> stat_denied d (path_join dir (name @ ''_history.json''))
      \<and> (files d (path_join dir (name @ ''_history.json'')) = None
         \<or> isl (read_json d (path_join dir (name @ ''_history.json'')))
         \<or> (\<exists>data. read_json d (path_join dir (name @ ''_history.json'')) = Inr data
                  \<and> isl (get_history_field data)))"
  then have "load_history m0 d = (None, m0)"
    using load_failure_cases [of d m0] unfolding hf by blast
  moreover have "py_len (history m0) = Inr 0" by (simp add: m0_def)
  ultimately show "init dir name autosave maxsize d =
            Inr \<lparr>history_dir = dir, agent_name = name, auto_save = autosave,
                 max_history_size = maxsize, history = JArr []\<rparr>"
    using a by (simp add: init_def Let_def flip: m0_def)
qed

theorem persistence_errors_contained_witness:
  "fst (save_history c0 (mgr True 5 [msg_user]) d_readonly) = None
 \<and> raised (add_message c0 ''user'' ''hello'' None (mgr True 5 [msg_user]) d_readonly) = None
 \<and> history (self (add_message c0 ''user'' ''hello'' None (mgr True 5 [msg_user]) d_readonly)) =
     JArr [msg_user, make_message c0 ''user'' ''hello'' None]
 \<and> self (clear_history c0 False (mgr True 5 [msg_user]) d_readonly) = mgr True 5 []
 \<and> load_history (mgr True 5 []) (disk_with Garbage) = (None, mgr True 5 [])
 \<and> init ''h'' ''a'' True 5 (disk_with Garbage) = Inr (mgr True 5 [])"
proof -
  have hf: "history_file (mgr True 5 []) = ''h/a_history.json''"
    "path_join ''h'' (''a'' @ ''_history.json'') = ''h/a_history.json''"
    by (simp_all add: mgr_def history_file_def path_join_def)
  have g: "isl (read_json (disk_with Garbage) ''h/a_history.json'')"
    "\<not> stat_denied (disk_with Garbage) ''h/a_history.json''"
    "\<not> mkdir_denied (disk_with Garbage) ''h''"
    by (simp_all add: read_json_def disk_with_def d0_def)
  have h: "history (mgr True 5 [msg_user]) = JArr [msg_user]" by (simp add: mgr_def)
  have t: "snd (trim ((mgr True 5 [msg_user])
             \<lparr>history := JArr ([msg_user] @ [make_message c0 ''user'' ''hello'' None])\<rparr>)) =
           mgr True 5 [msg_user, make_message c0 ''user'' ''hello'' None]"
    by (simp add: trim_def mgr_def)
  show ?thesis
    using persistence_errors_contained
        [where c = c0 and m = "mgr True 5 [msg_user]" and d = d_readonly and xs = "[msg_user]"
           and role = "''user''" and content = "''hello''" and metadata = None and sb = False]
      persistence_errors_contained
        [where m = "mgr True 5 []" and d = "disk_with Garbage" and dir = "''h''" and name = "''a''"
           and autosave = True and maxsize = 5]
      g h t
    unfolding hf
    by (simp add: mgr_def)
qed


section \<open>Properties of the GPS connector\<close>

lemma posts_simps:
  "posts [] = []"
  "posts (Post rq # tr) = rq # posts tr"
  "posts (Wait k # tr) = posts tr"
  by (simp_all add: posts_def)

lemma send_request_unfold:
  "send_request cfg net coords =
     (let rq = make_request cfg coords in
      case net 1 rq of
        Returns r \<Rightarrow> ([Post rq], Returns r)
      | Raises e1 \<Rightarrow>
          (case net 2 rq of
             Returns r \<Rightarrow> ([Post rq, Wait 1, Post rq], Returns r)
           | Raises e2 \<Rightarrow> ([Post rq, Wait 1, Post rq, Wait 2, Post rq], net 3 rq)))"
  by (simp add: send_request_def stop_after_attempt_def numeral_2_eq_2 numeral_3_eq_3 Let_def
      split: post_outcome.splits)

lemma make_request_max_retries:
  "make_request (cfg\<lparr>max_retries := r\<rparr>) coords = make_request cfg coords"
  by (simp add: make_request_def)

text \<open>
  C9. When the first three calls of \<^verbatim>\<open>requests.post\<close> raise,
  \<^verbatim>\<open>_send_request\<close> makes exactly three POST attempts, with a wait after the first
  and after the second, and re-raises the exception of the third. Changing
  \<open>max_retries\<close> in the configuration changes nothing.
\<close>

theorem three_attempts_whatever_max_retries:
  assumes "net 1 (make_request cfg coords) = Raises e1"
    and "net 2 (make_request cfg coords) = Raises e2"
    and "net 3 (make_request cfg coords) = Raises e3"
  shows "send_request cfg net coords =
           ([Post (make_request cfg coords), Wait 1, Post (make_request cfg coords), Wait 2,
             Post (make_request cfg coords)], Raises e3)
       \<and> length (posts (fst (send_request cfg net coords))) = 3
       \<and> send_request (cfg\<lparr>max_retries := r\<rparr>) net coords = send_request cfg net coords"
  using assms
  by (simp add: send_request_unfold make_request_max_retries posts_def Let_def)

theorem three_attempts_whatever_max_retries_witness:
  "send_request cfg0 net_down coords0 =
     ([Post (make_request cfg0 coords0), Wait 1, Post (make_request cfg0 coords0), Wait 2,
       Post (make_request cfg0 coords0)], Raises ConnectionError)
 \<and> length (posts (fst (send_request cfg0 net_down coords0))) = 3
 \<and> send_request (cfg0\<lparr>max_retries := 7\<rparr>) net_down coords0 = send_request cfg0 net_down coords0"
  using three_attempts_whatever_max_retries
    [of net_down cfg0 coords0 ConnectionError ConnectionError ConnectionError 7]
  by (simp add: net_down_def posts_simps)

lemma posts_attempts:
  "set (posts (fst (attempts left k net rq))) = {rq}"
proof (induction left arbitrary: k)
  case 0
  show ?case by (simp add: posts_simps)
next
  case (Suc left)
  show ?case
  proof (cases "net k rq")
    case (Returns r)
    then show ?thesis by (simp add: posts_simps)
  next
    case (Raises e)
    obtain tr out where a: "attempts left (Suc k) net rq = (tr, out)" by fastforce
    have "set (posts tr) = {rq}" using Suc [of "Suc k"] a by simp
    with Raises a show ?thesis by (simp add: posts_simps)
  qed
qed

lemma get_coordinates_cases:
  "get_coordinates io =
    (case io ''latitude'' of None \<Rightarrow> None | Some lat \<Rightarrow>
      (case io ''longitude'' of None \<Rightarrow> None | Some lon \<Rightarrow>
        (case io ''yaw_deg'' of None \<Rightarrow> None | Some y \<Rightarrow>
           Some (JObj [(''latitude'', lat), (''longitude'', lon), (''yaw'', y)]))))"
  by (simp add: get_coordinates_def Let_def split: option.splits)

lemma send_coordinates_trace:
  "get_coordinates io = Some coords \<Longrightarrow>
   snd (send_coordinates cfg io net) = fst (send_request cfg net coords)"
  by (simp add: send_coordinates_def split: prod.splits sum.splits)

text \<open>
  C3. \<^verbatim>\<open>send_coordinates\<close> reads \<open>latitude\<close>, \<open>longitude\<close> and \<open>yaw_deg\<close> from
  the IO provider. If one of them is \<open>None\<close> it returns \<open>False\<close> and makes no
  request. Otherwise it makes at least one request, and every request goes to the
  configured endpoint with the JSON-RPC body of method \<open>omp2p_shareStatus\<close> whose only
  parameter holds these three values.
\<close>

theorem coordinates_read_and_posted:
  "(io ''latitude'' = None \<or> io ''longitude'' = None \<or> io ''yaw_deg'' = None \<longrightarrow>
      send_coordinates cfg io net = (Inr False, []))
 \<and> (io ''latitude'' = Some lat \<and> io ''longitude'' = Some lon \<and> io ''yaw_deg'' = Some y \<longrightarrow>
      posts (snd (send_coordinates cfg io net)) \<noteq> []
    \<and> list_all (\<lambda>rq. url rq = fabric_endpoint cfg
                   \<and> body rq = JObj [(''method'', JStr ''omp2p_shareStatus''),
                                     (''params'', JArr [JObj [(''latitude'', lat),
                                                              (''longitude'', lon),
                                                              (''yaw'', y)]]),
                                     (''id'', JInt 1),
                                     (''jsonrpc'', JStr ''2.0'')])
        (posts (snd (send_coordinates cfg io net))))"
proof (intro conjI impI)
  assume "io ''latitude'' = None \<or> io ''longitude'' = None \<or> io ''yaw_deg'' = None"
  then have "get_coordinates io = None"
    by (auto simp: get_coordinates_cases split: option.splits)
  then show "send_coordinates cfg io net = (Inr False, [])"
    by (simp add: send_coordinates_def)
next
  assume a: "io ''latitude'' = Some lat \<and> io ''longitude'' = Some lon \<and> io ''yaw_deg'' = Some y"
  define coords where "coords = JObj [(''latitude'', lat), (''longitude'', lon), (''yaw'', y)]"
  have gc: "get_coordinates io = Some coords"
    using a by (simp add: get_coordinates_cases coords_def)
  have tr: "snd (send_coordinates cfg io net) = fst (send_request cfg net coords)"
    by (rule send_coordinates_trace [OF gc])
  have ps: "set (posts (snd (send_coordinates cfg io net))) = {make_request cfg coords}"
    unfolding tr send_request_def by (rule posts_attempts)
  then show "posts (snd (send_coordinates cfg io net)) \<noteq> []" by auto
  show "list_all (\<lambda>rq. url rq = fabric_endpoint cfg
                   \<and> body rq = JObj [(''method'', JStr ''omp2p_shareStatus''),
                                     (''params'', JArr [JObj [(''latitude'', lat),
                                                              (''longitude'', lon),
                                                              (''yaw'', y)]]),
                                     (''id'', JInt 1),
                                     (''jsonrpc'', JStr ''2.0'')])
        (posts (snd (send_coordinates cfg io net)))"
    unfolding list_all_iff ps by (simp add: make_request_def coords_def)
qed

theorem coordinates_read_and_posted_witness:
  "send_coordinates cfg0 io_no_yaw net_flaky = (Inr False, [])
 \<and> posts (snd (send_coordinates cfg0 io_full net_flaky)) \<noteq> []
 \<and> list_all (\<lambda>rq. url rq = ''http://localhost:8545''
                \<and> body rq = JObj [(''method'', JStr ''omp2p_shareStatus''),
                                  (''params'', JArr [coords0]),
                                  (''id'', JInt 1), (''jsonrpc'', JStr ''2.0'')])
      (posts (snd (send_coordinates cfg0 io_full net_flaky)))"
  using coordinates_read_and_posted [where io = io_no_yaw and cfg = cfg0 and net = net_flaky]
    coordinates_read_and_posted [where io = io_full and lat = "JFloat 1" and lon = "JFloat 2"
      and y = "JInt 90" and cfg = cfg0 and net = net_flaky]
  by (simp add: io_no_yaw_def io_full_def cfg0_def coords0_def)

lemma send_handlers_False: "send_handlers e = Inr False"
  by (cases e) simp_all

lemma error_branch_cases: "error_branch j = Inr False \<or> (\<exists>e. error_branch j = Inl e)"
  by (auto simp: error_branch_def split: sum.splits)

lemma check_result_True:
  "check_result j = Inr True \<longleftrightarrow>
     (\<exists>kvs v. j = JObj kvs \<and> map_of kvs ''result'' = Some v \<and> py_truthy v)"
proof
  assume t: "check_result j = Inr True"
  have eb: "error_branch j \<noteq> Inr True" using error_branch_cases [of j] by auto
  from t eb obtain v where v: "py_in ''result'' j = Inr True" "py_getitem j ''result'' = Inr v" "py_truthy v"
    by (auto simp: check_result_def split: sum.splits if_splits)
  from v(2) obtain kvs where "j = JObj kvs" by (cases j) auto
  with v show "\<exists>kvs v. j = JObj kvs \<and> map_of kvs ''result'' = Some v \<and> py_truthy v"
    by (auto split: option.splits)
next
  assume "\<exists>kvs v. j = JObj kvs \<and> map_of kvs ''result'' = Some v \<and> py_truthy v"
  then obtain kvs v where j: "j = JObj kvs" "map_of kvs ''result'' = Some v" "py_truthy v" by blast
  then have "''result'' \<in> set (map fst kvs)"
    by (metis map_of_eq_None_iff option.distinct(1) set_map)
  with j show "check_result j = Inr True" by (simp add: check_result_def)
qed

lemma send_coordinates_result:
  "fst (send_coordinates cfg io net) =
     (case get_coordinates io of
        None \<Rightarrow> Inr False
      | Some coords \<Rightarrow>
          (case send_body (snd (send_request cfg net coords)) of
             Inl e \<Rightarrow> Inr False
           | Inr b \<Rightarrow> Inr b))"
  by (simp add: send_coordinates_def send_handlers_False split: option.splits prod.splits sum.splits)

text \<open>
  C2. \<^verbatim>\<open>send_coordinates\<close> never raises: it returns a boolean for every IO
  provider, network and configuration. It returns \<open>True\<close> exactly when the coordinates
  are complete, the request (after the retries) returned a response whose status is not
  an error status, the body parsed as a JSON object, and the object holds a truthy
  \<open>"result"\<close>. An exception of the request, an error status and a body that is not
  JSON each give \<open>False\<close>.
\<close>

theorem send_coordinates_total:
  "(\<exists>b. fst (send_coordinates cfg io net) = Inr b)
 \<and> (fst (send_coordinates cfg io net) = Inr True \<longleftrightarrow>
      (\<exists>coords r kvs v.
          get_coordinates io = Some coords
        \<and> snd (send_request cfg net coords) = Returns r
        \<and> raise_for_status r = None
        \<and> json_body r = Some (JObj kvs)
        \<and> map_of kvs ''result'' = Some v \<and> py_truthy v))
 \<and> (\<forall>coords. get_coordinates io = Some coords \<and>
        ((\<exists>e. snd (send_request cfg net coords) = Raises e)
         \<or> (\<exists>r. snd (send_request cfg net coords) = Returns r
                \<and> (400 \<le> status_code r \<and> status_code r < 600 \<or> json_body r = None)))
      \<longrightarrow> fst (send_coordinates cfg io net) = Inr False)"
proof (intro conjI allI impI)
  show "\<exists>b. fst (send_coordinates cfg io net) = Inr b"
    by (auto simp: send_coordinates_result split: option.splits sum.splits)
next
  show "fst (send_coordinates cfg io net) = Inr True \<longleftrightarrow>
      (\<exists>coords r kvs v.
          get_coordinates io = Some coords
        \<and> snd (send_request cfg net coords) = Returns r
        \<and> raise_for_status r = None
        \<and> json_body r = Some (JObj kvs)
        \<and> map_of kvs ''result'' = Some v \<and> py_truthy v)"
  proof (cases "get_coordinates io")
    case None
    then show ?thesis by (simp add: send_coordinates_result)
  next
    case (Some coords)
    show ?thesis
    proof (cases "snd (send_request cfg net coords)")
      case (Raises e)
      with Some show ?thesis by (simp add: send_coordinates_result send_body_def)
    next
      case (Returns r)
      show ?thesis
      proof (cases "raise_for_status r")
        case (Some e)
        with \<open>get_coordinates io = Some coords\<close> Returns show ?thesis
          by (simp add: send_coordinates_result send_body_def)
      next
        case None
        show ?thesis
        proof (cases "json_body r")
          case nb: None
          with \<open>get_coordinates io = Some coords\<close> Returns None show ?thesis
            by (simp add: send_coordinates_result send_body_def)
        next
          case sb: (Some j)
          have "fst (send_coordinates cfg io net) = Inr True \<longleftrightarrow> check_result j = Inr True"
            using \<open>get_coordinates io = Some coords\<close> Returns None sb
            by (simp add: send_coordinates_result send_body_def split: sum.splits)
          with \<open>get_coordinates io = Some coords\<close> Returns None sb show ?thesis
            by (simp add: check_result_True)
        qed
      qed
    qed
  qed
next
  fix coords
  assume "get_coordinates io = Some coords \<and>
        ((\<exists>e. snd (send_request cfg net coords) = Raises e)
         \<or> (\<exists>r. snd (send_request cfg net coords) = Returns r
                \<and> (400 \<le> status_code r \<and> status_code r < 600 \<or> json_body r = None)))"
  then show "fst (send_coordinates cfg io net) = Inr False"
    by (auto simp: send_coordinates_result send_body_def raise_for_status_def
        split: option.splits)
qed


theorem send_coordinates_total_witness:
  "fst (send_coordinates cfg0 io_full net_flaky) = Inr True
 \<and> fst (send_coordinates cfg0 io_full net_down) = Inr False"
proof -
  have g: "get_coordinates io_full = Some coords0"
    by (simp add: get_coordinates_cases io_full_def coords0_def)
  have f: "snd (send_request cfg0 net_flaky coords0) = Returns ok_response"
    by (simp add: send_request_unfold net_flaky_def Let_def)
  have d: "snd (send_request cfg0 net_down coords0) = Raises ConnectionError"
    by (simp add: send_request_unfold net_down_def Let_def)
  have r: "raise_for_status ok_response = None"
    "json_body ok_response =
       Some (JObj [(''jsonrpc'', JStr ''2.0''), (''id'', JInt 1), (''result'', JBool True)])"
    by (simp_all add: raise_for_status_def ok_response_def)
  have "\<exists>coords r kvs v.
          get_coordinates io_full = Some coords
        \<and> snd (send_request cfg0 net_flaky coords) = Returns r
        \<and> raise_for_status r = None
        \<and> json_body r = Some (JObj kvs)
        \<and> map_of kvs ''result'' = Some v \<and> py_truthy v"
    using g f r by simp
  then show ?thesis
    using send_coordinates_total [of cfg0 io_full net_flaky]
      send_coordinates_total [of cfg0 io_full net_down] g d
    by blast
qed


section \<open>Properties of the simulator plugin lookup\<close>

lemma scan_plugins_none:
  "list_all (no_match env n) fs \<Longrightarrow>
   scan_plugins env (JStr n) (filter (\<lambda>f. endswith (fst f) ''.py'') fs) = None"
  by (induction fs) (auto simp: no_match_def split: option.splits)

lemma lookup_handlers_ValueError:
  "\<exists>msg. lookup_handlers cn mn (ImportError m) = ValueError msg"
  "\<exists>msg. lookup_handlers cn mn AttributeError = ValueError msg"
  "\<exists>msg. lookup_handlers cn mn (ValueError m) = ValueError msg"
  by simp_all

lemma get_simulator_class_not_found:
  "find_module_with_class env (JStr n) = Inr None \<Longrightarrow>
   get_simulator_class env n = Inl (not_found_anywhere n)"
  by (simp add: get_simulator_class_def)

lemma load_simulator_not_found:
  "find_module_with_class env (JStr n) = Inr None \<Longrightarrow> map_of cfg ''type'' = Some (JStr n) \<Longrightarrow>
   load_simulator env cfg = Inl (not_found_anywhere n)"
  by (simp add: load_simulator_def fmt_def)

lemma get_simulator_class_lookup_fails:
  assumes "find_module_with_class env (JStr n) = Inr (Some mn)" "lookup_fails env mn n"
  shows "\<exists>msg. get_simulator_class env n = Inl (ValueError msg)"
  using assms
  by (auto simp: get_simulator_class_def lookup_fails_def resolve_def
      split: sum.splits option.splits exn.splits pyobj.splits)

lemma load_simulator_lookup_fails:
  assumes "find_module_with_class env (JStr n) = Inr (Some mn)" "lookup_fails env mn n"
    "map_of cfg ''type'' = Some (JStr n)"
  shows "\<exists>msg. load_simulator env cfg = Inl (ValueError msg)"
  using assms
  by (auto simp: load_simulator_def fmt_def lookup_fails_def resolve_def
      split: sum.splits option.splits exn.splits pyobj.splits)


text \<open>
  C6, as stated, at a plugin whose import raises an exception that is not an
  \<open>ImportError\<close> (a syntax error in the module, say): the module cannot be imported,
  and both functions raise that exception, not a \<open>ValueError\<close>.
\<close>

theorem other_import_exception_propagates:
  "find_module_with_class env_syntax (JStr ''Rover'') = Inr (Some ''rover'')
 \<and> import_module env_syntax ''simulators.plugins.rover'' = Inl (OtherException ''SyntaxError'')
 \<and> get_simulator_class env_syntax ''Rover'' = Inl (OtherException ''SyntaxError'')
 \<and> load_simulator env_syntax [(''type'', JStr ''Rover'')] = Inl (OtherException ''SyntaxError'')"
proof -
  have f: "find_module_with_class env_syntax (JStr ''Rover'') = Inr (Some ''rover'')"
    by (simp add: find_module_with_class_def env_syntax_def env0_def endswith_def
        class_pattern_def)
  show ?thesis
    by (simp add: f get_simulator_class_def load_simulator_def resolve_def fmt_def)
       (simp add: env_syntax_def)
qed


text \<open>
  C6, amended. \<^verbatim>\<open>find_module_with_class\<close> returns \<open>None\<close>, without raising, when
  the plugins directory is missing or no listed file matches. \<^verbatim>\<open>get_simulator_class\<close>
  and \<^verbatim>\<open>load_simulator\<close> raise a \<open>ValueError\<close> when the name is found in no
  plugin module, when the import of the module raises \<open>ImportError\<close>, when the module
  has no attribute of that name, and when the attribute is not a strict subclass of
  \<open>Simulator\<close>.
\<close>

theorem lookup_failures_raise_ValueError:
  "(plugins env = Missing \<or> (\<exists>fs. plugins env = Listing fs \<and> list_all (no_match env n) fs) \<longrightarrow>
      find_module_with_class env (JStr n) = Inr None)
 \<and> (find_module_with_class env (JStr n) = Inr None
      \<or> (\<exists>mn. find_module_with_class env (JStr n) = Inr (Some mn) \<and> lookup_fails env mn n) \<longrightarrow>
      (\<exists>msg. get_simulator_class env n = Inl (ValueError msg))
    \<and> (map_of cfg ''type'' = Some (JStr n) \<longrightarrow>
         (\<exists>msg. load_simulator env cfg = Inl (ValueError msg))))"
proof (intro conjI impI)
  assume "plugins env = Missing \<or> (\<exists>fs. plugins env = Listing fs \<and> list_all (no_match env n) fs)"
  then show "find_module_with_class env (JStr n) = Inr None"
    by (auto simp: find_module_with_class_def scan_plugins_none)
next
  assume a: "find_module_with_class env (JStr n) = Inr None
      \<or> (\<exists>mn. find_module_with_class env (JStr n) = Inr (Some mn) \<and> lookup_fails env mn n)"
  then show "\<exists>msg. get_simulator_class env n = Inl (ValueError msg)"
    using get_simulator_class_not_found [of env n] get_simulator_class_lookup_fails [of env n]
    by (auto simp: not_found_anywhere_def)
  assume "map_of cfg ''type'' = Some (JStr n)"
  with a show "\<exists>msg. load_simulator env cfg = Inl (ValueError msg)"
    using load_simulator_not_found [of env n cfg] load_simulator_lookup_fails [of env n _ cfg]
    by (auto simp: not_found_anywhere_def)
qed

theorem lookup_failures_raise_ValueError_witness:
  "find_module_with_class (env0\<lparr>plugins := Missing\<rparr>) (JStr ''Rover'') = Inr None
 \<and> (\<exists>msg. get_simulator_class (env0\<lparr>plugins := Missing\<rparr>) ''Rover'' = Inl (ValueError msg))
 \<and> (\<exists>msg. get_simulator_class env_unimportable ''Rover'' = Inl (ValueError msg))
 \<and> (\<exists>msg. load_simulator env_unimportable [(''type'', JStr ''Rover'')] = Inl (ValueError msg))"
proof -
  have f: "find_module_with_class env_unimportable (JStr ''Rover'') = Inr (Some ''rover'')"
    by (simp add: find_module_with_class_def env_unimportable_def env0_def endswith_def
        class_pattern_def)
  have l: "lookup_fails env_unimportable ''rover'' ''Rover''"
    by (simp add: lookup_fails_def env_unimportable_def)
  have m: "plugins (env0\<lparr>plugins := Missing\<rparr>) = Missing" by simp
  show ?thesis
    using lookup_failures_raise_ValueError [of "env0\<lparr>plugins := Missing\<rparr>" "''Rover''" "[]"]
      lookup_failures_raise_ValueError
        [of env_unimportable "''Rover''" "[(''type'', JStr ''Rover'')]"] f l m
    by simp
qed

end
